theory Spec2Isabelle
  imports Complex_Main
begin

section \<open>Numbers, quantities and errors\<close>

text \<open>
  The Python works on float64 values, alone or in one-dimensional numpy arrays. A float is
  modelled as a real number or the not-a-number sentinel: rounding and the infinities are not
  represented. Where numpy would give an infinity or a NaN for an operation that the reals do
  not have (division by zero, the logarithm or the square root outside their domain), the
  model gives \<open>NaN\<close>. Every comparison with \<open>NaN\<close> is false, as in IEEE arithmetic.
  Physical units are carried by an external library and are not represented.
\<close>

datatype fl = NaN | Fin real

fun isnan :: "fl \<Rightarrow> bool" where
  "isnan NaN = True"
| "isnan (Fin x) = False"

fun fl_lt :: "fl \<Rightarrow> fl \<Rightarrow> bool" where
  "fl_lt (Fin x) (Fin y) = (x < y)"
| "fl_lt _ _ = False"

fun fl_gt :: "fl \<Rightarrow> fl \<Rightarrow> bool" where
  "fl_gt (Fin x) (Fin y) = (x > y)"
| "fl_gt _ _ = False"

fun fl_is_zero :: "fl \<Rightarrow> bool" where
  "fl_is_zero (Fin x) = (x = 0)"
| "fl_is_zero NaN = False"

fun fl_add :: "fl \<Rightarrow> fl \<Rightarrow> fl" where
  "fl_add (Fin x) (Fin y) = Fin (x + y)"
| "fl_add _ _ = NaN"

fun fl_mul :: "fl \<Rightarrow> fl \<Rightarrow> fl" where
  "fl_mul (Fin x) (Fin y) = Fin (x * y)"
| "fl_mul _ _ = NaN"

fun fl_div :: "fl \<Rightarrow> fl \<Rightarrow> fl" where
  "fl_div (Fin x) (Fin y) = (if y = 0 then NaN else Fin (x / y))"
| "fl_div _ _ = NaN"

fun fl_sq :: "fl \<Rightarrow> fl" where
  "fl_sq (Fin x) = Fin (x ^ 2)"
| "fl_sq NaN = NaN"

fun fl_sqrt :: "fl \<Rightarrow> fl" where
  "fl_sqrt (Fin x) = (if x < 0 then NaN else Fin (sqrt x))"
| "fl_sqrt NaN = NaN"

fun fl_log :: "fl \<Rightarrow> fl" where
  "fl_log (Fin x) = (if x \<le> 0 then NaN else Fin (ln x))"
| "fl_log NaN = NaN"

text \<open>A quantity is a scalar or a one-dimensional array.\<close>

datatype qty = Scalar fl | Array "fl list"

text \<open>
  Errors are values. The message of a ValueError is kept as the pieces of the source's string
  or f-string, in order: literal text, an interpolated count, an interpolated array of numbers.
  The specification's configuration error is Python's ValueError in the source.
\<close>

datatype piece = Text string | Count nat | Values "real list"

datatype error =
    ValueError "piece list"
  | PhysicsError string
  | IndexError string
  | RelativityError string
  | InvalidParticleError string

definition then_e :: "error + 'a \<Rightarrow> ('a \<Rightarrow> error + 'b) \<Rightarrow> error + 'b" where
  "then_e m f = (case m of Inl e \<Rightarrow> Inl e | Inr x \<Rightarrow> f x)"

text \<open>An elementwise unary operation, and numpy's \<open>np.any\<close> of an elementwise test.\<close>

fun uop :: "(fl \<Rightarrow> fl) \<Rightarrow> qty \<Rightarrow> qty" where
  "uop f (Scalar a) = Scalar (f a)"
| "uop f (Array xs) = Array (map f xs)"

fun any_q :: "(fl \<Rightarrow> bool) \<Rightarrow> qty \<Rightarrow> bool" where
  "any_q p (Scalar a) = p a"
| "any_q p (Array xs) = list_ex p xs"

text \<open>
  An elementwise binary operation with numpy's broadcasting: a scalar or an array of one
  element is stretched to the other operand's length; arrays of other, different lengths
  raise numpy's ValueError.
\<close>

fun bop :: "(fl \<Rightarrow> fl \<Rightarrow> fl) \<Rightarrow> qty \<Rightarrow> qty \<Rightarrow> error + qty" where
  "bop f (Scalar a) (Scalar b) = Inr (Scalar (f a b))"
| "bop f (Scalar a) (Array ys) = Inr (Array (map (f a) ys))"
| "bop f (Array xs) (Scalar b) = Inr (Array (map (\<lambda>x. f x b) xs))"
| "bop f (Array xs) (Array ys) =
     (if length xs = length ys then Inr (Array (map (\<lambda>(x, y). f x y) (zip xs ys)))
      else (case xs of [x] \<Rightarrow> Inr (Array (map (f x) ys))
            | _ \<Rightarrow> (case ys of [y] \<Rightarrow> Inr (Array (map (\<lambda>x. f x y) xs))
                   | _ \<Rightarrow> Inl (ValueError [Text ''operands could not be broadcast together'']))))"

section \<open>Collaborators of the collision formulary\<close>

text \<open>
  A resolved particle: its rest mass, its signed electric charge and its signed charge number.
  The decorator \<open>particle_input\<close> resolves the two species before the functions of
  \<open>collisions.py\<close> run.
\<close>

record particle =
  mass :: real
  charge :: real
  charge_number :: int

text \<open>
  The functions and constants that \<open>collisions.py\<close> imports from other modules are
  parameters of the model: the thermal speed for a temperature and a mass, the Debye length
  for a temperature and a density, the Wigner-Seitz radius of a density (all three act
  elementwise), the reduced mass of a pair, the relativity check (which raises or passes)
  and the constants \<open>hbar\<close> and \<open>eps0\<close>.
\<close>

record collaborators =
  thermal_speed :: "fl \<Rightarrow> real \<Rightarrow> fl"
  Debye_length :: "fl \<Rightarrow> fl \<Rightarrow> fl"
  Wigner_Seitz_radius :: "fl \<Rightarrow> fl"
  reduced_mass :: "particle \<Rightarrow> particle \<Rightarrow> real"
  check_relativistic :: "qty \<Rightarrow> error option"
  hbar :: real
  eps0 :: real

section \<open>collisions.py\<close>

text \<open>
  \<open>_replaceNanVwithThermalV(V, T, m)\<close>. \<open>V\<close> may be \<open>None\<close>. A zero velocity raises. A scalar
  NaN is replaced by the thermal speed of \<open>T\<close> (of \<open>T\<close>'s shape); in an array the NaN entries
  are overwritten, with the thermal speed of the scalar \<open>T\<close> or of the entries of \<open>T\<close> at the
  same places, where a boolean mask of another length raises IndexError.
\<close>

definition replaceNanVwithThermalV ::
  "collaborators \<Rightarrow> qty option \<Rightarrow> qty \<Rightarrow> real \<Rightarrow> error + qty" where
  "replaceNanVwithThermalV env V T m =
     (case V of
        None \<Rightarrow> Inr (uop (\<lambda>t. thermal_speed env t m) T)
      | Some v \<Rightarrow>
          if any_q fl_is_zero v
          then Inl (PhysicsError ''You cannot have a collision for zero velocity!'')
          else if any_q isnan v then
            (case v of
               Scalar _ \<Rightarrow> Inr (uop (\<lambda>t. thermal_speed env t m) T)
             | Array vs \<Rightarrow>
                 (case T of
                    Scalar t \<Rightarrow>
                      Inr (Array (map (\<lambda>x. if isnan x then thermal_speed env t m else x) vs))
                  | Array ts \<Rightarrow>
                      if length ts = length vs
                      then Inr (Array (map (\<lambda>(x, t). if isnan x then thermal_speed env t m else x)
                                        (zip vs ts)))
                      else Inl (IndexError ''boolean index did not match indexed array'')))
          else Inr v)"

text \<open>
  \<open>_boilerPlate(T, species, V)\<close> returns the magnitudes of the two charges, the reduced mass
  and the velocity with its NaN entries replaced, after the relativity check. (The source also
  returns \<open>T\<close> and the masses, which no caller modelled here reads.)
\<close>

definition boilerPlate ::
  "collaborators \<Rightarrow> qty \<Rightarrow> particle \<times> particle \<Rightarrow> qty option
     \<Rightarrow> error + ((real \<times> real) \<times> real \<times> qty)" where
  "boilerPlate env T species V =
     (let charges = (\<bar>charge (fst species)\<bar>, \<bar>charge (snd species)\<bar>);
          mu = reduced_mass env (fst species) (snd species)
      in then_e (replaceNanVwithThermalV env V T mu) (\<lambda>V'.
           case check_relativistic env V' of
             Some e \<Rightarrow> Inl e
           | None \<Rightarrow> Inr (charges, mu, V')))"

text \<open>
  \<open>impact_parameter_perp(T, species, V)\<close>:
  \<open>bPerp = charges[0] * charges[1] / (4 * pi * eps0 * reduced_mass * V ** 2)\<close>.
\<close>

definition impact_parameter_perp ::
  "collaborators \<Rightarrow> qty \<Rightarrow> particle \<times> particle \<Rightarrow> qty option \<Rightarrow> error + qty" where
  "impact_parameter_perp env T species V =
     then_e (boilerPlate env T species V) (\<lambda>(charges, mu, V').
       Inr (uop (\<lambda>v. fl_div (Fin (fst charges * snd charges))
                        (fl_mul (Fin (4 * pi * eps0 env * mu)) (fl_sq v))) V'))"

definition z_mean_message :: string where
  "z_mean_message =
     ''Must provide a z_mean for \"ls_full_interp\", \"hls_max_interp\", and \"hls_full_interp\" methods.''"

definition needs_z_mean :: "string \<Rightarrow> bool" where
  "needs_z_mean method \<longleftrightarrow>
     method \<in> set [''ls_full_interp'', ''GMS-2'', ''hls_max_interp'', ''GMS-5'',
                   ''hls_full_interp'', ''GMS-6'']"

text \<open>The quadratic sum \<open>(a ** 2 + b ** 2) ** (1 / 2)\<close> of two quantities.\<close>

definition quad_sum :: "qty \<Rightarrow> qty \<Rightarrow> error + qty" where
  "quad_sum a b = then_e (bop fl_add (uop fl_sq a) (uop fl_sq b)) (\<lambda>s. Inr (uop fl_sqrt s))"

text \<open>
  The classical inner impact parameter: the larger of \<open>bPerp\<close> and \<open>lambdaBroglie\<close>. The source
  tries the comparison as a truth value, which numpy allows for a scalar and for an array of
  at most one element (an empty array is false), and on the ValueError of a longer array
  overwrites the entries of \<open>lambdaBroglie\<close> where \<open>bPerp\<close> is larger. Both operands are
  computed from the same velocity and have its shape, so the branches for operands of
  different shapes are never taken (lemma \<open>classical_bmin_same_shape\<close>).
\<close>

fun classical_bmin :: "qty \<Rightarrow> qty \<Rightarrow> error + qty" where
  "classical_bmin (Scalar b) (Scalar l) = Inr (if fl_gt b l then Scalar b else Scalar l)"
| "classical_bmin (Array bs) (Array ls) =
     (if length bs = length ls
      then (case (bs, ls) of
              ([b], [l]) \<Rightarrow> Inr (if fl_gt b l then Array bs else Array ls)
            | _ \<Rightarrow> Inr (Array (map (\<lambda>(b, l). if fl_gt b l then b else l) (zip bs ls))))
      else Inl (ValueError [Text ''operands could not be broadcast together'']))"
| "classical_bmin _ _ = Inl (IndexError ''operands of different shapes'')"

text \<open>
  \<open>impact_parameter(T, n_e, species, z_mean, V, method)\<close>. \<open>z_mean\<close> is a scalar here. The
  last step repeats a scalar \<open>bmin\<close> to the length of an array \<open>bmax\<close>.
\<close>

definition ion_sphere_bmax ::
  "collaborators \<Rightarrow> qty \<Rightarrow> qty \<Rightarrow> fl \<Rightarrow> error + qty" where
  "ion_sphere_bmax env lambdaDe n_e z_mean =
     then_e (bop fl_div n_e (Scalar z_mean)) (\<lambda>n_i.
       quad_sum lambdaDe (uop (Wigner_Seitz_radius env) n_i))"

fun repeat_bmin :: "qty \<Rightarrow> qty \<Rightarrow> qty" where
  "repeat_bmin (Scalar b) (Array xs) = Array (replicate (length xs) b)"
| "repeat_bmin bmin _ = bmin"

definition impact_parameter ::
  "collaborators \<Rightarrow> qty \<Rightarrow> qty \<Rightarrow> particle \<times> particle \<Rightarrow> fl \<Rightarrow> qty option \<Rightarrow> string
     \<Rightarrow> error + (qty \<times> qty)" where
  "impact_parameter env T n_e species z_mean V method =
     then_e (boilerPlate env T species V) (\<lambda>(charges, mu, V').
       if needs_z_mean method \<and> isnan z_mean
       then Inl (ValueError [Text z_mean_message])
       else
       then_e (bop (Debye_length env) T n_e) (\<lambda>lambdaDe.
       let lambdaBroglie = uop (\<lambda>v. fl_div (Fin (hbar env)) (fl_mul (Fin (2 * mu)) v)) V' in
       then_e (impact_parameter_perp env T species (Some V')) (\<lambda>bPerp.
       then_e
         (if method = ''classical'' \<or> method = ''ls''
          then then_e (classical_bmin bPerp lambdaBroglie) (\<lambda>bmin. Inr (bmin, lambdaDe))
          else if method = ''ls_min_interp'' \<or> method = ''GMS-1''
          then then_e (quad_sum lambdaBroglie bPerp) (\<lambda>bmin. Inr (bmin, lambdaDe))
          else if method = ''ls_full_interp'' \<or> method = ''GMS-2''
          then then_e (ion_sphere_bmax env lambdaDe n_e z_mean) (\<lambda>bmax.
               then_e (quad_sum lambdaBroglie bPerp) (\<lambda>bmin. Inr (bmin, bmax)))
          else if method = ''ls_clamp_mininterp'' \<or> method = ''GMS-3''
          then then_e (quad_sum lambdaBroglie bPerp) (\<lambda>bmin. Inr (bmin, lambdaDe))
          else if method = ''hls_min_interp'' \<or> method = ''GMS-4''
          then then_e (quad_sum lambdaBroglie bPerp) (\<lambda>bmin. Inr (bmin, lambdaDe))
          else if method = ''hls_max_interp'' \<or> method = ''GMS-5''
          then then_e (ion_sphere_bmax env lambdaDe n_e z_mean) (\<lambda>bmax. Inr (bPerp, bmax))
          else if method = ''hls_full_interp'' \<or> method = ''GMS-6''
          then then_e (ion_sphere_bmax env lambdaDe n_e z_mean) (\<lambda>bmax.
               then_e (quad_sum lambdaBroglie bPerp) (\<lambda>bmin. Inr (bmin, bmax)))
          else Inl (ValueError [Text ''Method '', Text method, Text '' not found!'']))
         (\<lambda>(bmin, bmax). Inr (repeat_bmin bmin bmax, bmax)))))"

text \<open>
  The two warnings of \<open>Coulomb_logarithm\<close>, both of class \<open>CouplingWarning\<close>; each carries the
  value it reports, the first also the method.
\<close>

datatype warning =
    Depends_on_weak_coupling qty string
  | Strong_coupling_may_exist qty

definition linear_family :: "string \<Rightarrow> bool" where
  "linear_family method \<longleftrightarrow>
     method \<in> set [''classical'', ''ls'', ''ls_min_interp'', ''GMS-1'',
                   ''ls_full_interp'', ''GMS-2'']"

definition clamped_family :: "string \<Rightarrow> bool" where
  "clamped_family method \<longleftrightarrow> method \<in> set [''ls_clamp_mininterp'', ''GMS-3'']"

definition hyperbolic_family :: "string \<Rightarrow> bool" where
  "hyperbolic_family method \<longleftrightarrow>
     method \<in> set [''hls_min_interp'', ''GMS-4'', ''hls_max_interp'', ''GMS-5'',
                   ''hls_full_interp'', ''GMS-6'']"

text \<open>The clamp of method GMS-3: a scalar below 2 becomes 2, array entries below 2 become 2.\<close>

definition clamp_at_2 :: "qty \<Rightarrow> qty" where
  "clamp_at_2 ln_Lambda =
     (if any_q (\<lambda>x. fl_lt x (Fin 2)) ln_Lambda
      then (case ln_Lambda of
              Scalar _ \<Rightarrow> Scalar (Fin 2)
            | Array xs \<Rightarrow> Array (map (\<lambda>x. if fl_lt x (Fin 2) then Fin 2 else x) xs))
      else ln_Lambda)"

text \<open>The warnings after the computation: an \<open>if\<close> with one \<open>elif\<close>, so at most one warning.\<close>

definition coupling_warnings :: "string \<Rightarrow> qty \<Rightarrow> warning list" where
  "coupling_warnings method ln_Lambda =
     (if any_q (\<lambda>x. fl_lt x (Fin 2)) ln_Lambda \<and> linear_family method
      then [Depends_on_weak_coupling ln_Lambda method]
      else if any_q (\<lambda>x. fl_lt x (Fin 4)) ln_Lambda
      then [Strong_coupling_may_exist ln_Lambda]
      else [])"

text \<open>
  \<open>Coulomb_logarithm(T, n_e, species, z_mean, V, method)\<close>, in two stages: the value
  \<open>ln_Lambda\<close> (up to the conversion to a plain number), then the warnings. The model returns
  the value together with the warnings that were emitted.
\<close>

definition ln_Lambda_value ::
  "collaborators \<Rightarrow> qty \<Rightarrow> qty \<Rightarrow> particle \<times> particle \<Rightarrow> fl \<Rightarrow> qty option \<Rightarrow> string
     \<Rightarrow> error + qty" where
  "ln_Lambda_value env T n_e species z_mean V method =
     then_e (impact_parameter env T n_e species z_mean V method) (\<lambda>(bmin, bmax).
       if linear_family method
       then then_e (bop fl_div bmax bmin) (\<lambda>r. Inr (uop fl_log r))
       else if clamped_family method
       then then_e (bop fl_div bmax bmin) (\<lambda>r. Inr (clamp_at_2 (uop fl_log r)))
       else if hyperbolic_family method
       then then_e (bop fl_div (uop fl_sq bmax) (uop fl_sq bmin)) (\<lambda>r.
              Inr (uop (\<lambda>x. fl_mul (Fin (1 / 2)) (fl_log (fl_add (Fin 1) x))) r))
       else Inl (ValueError [Text ''Unknown method.'']))"

definition Coulomb_logarithm ::
  "collaborators \<Rightarrow> qty \<Rightarrow> qty \<Rightarrow> particle \<times> particle \<Rightarrow> fl \<Rightarrow> qty option \<Rightarrow> string
     \<Rightarrow> error + (qty \<times> warning list)" where
  "Coulomb_logarithm env T n_e species z_mean V method =
     then_e (ln_Lambda_value env T n_e species z_mean V method) (\<lambda>ln_Lambda.
       Inr (ln_Lambda, coupling_warnings method ln_Lambda))"

section \<open>thomson.py\<close>

text \<open>
  The numbers of \<open>spectral_density\<close> are modelled as reals and complex numbers, arrays as lists,
  a velocity or direction as a triple. Where numpy would give NaN (the square root of a
  negative number, the arc cosine outside \<open>[-1, 1]\<close>, a division by zero, the mean of no
  values) the HOL function gives some number; no statement below depends on it.

  \<open>ion_species\<close> is a string, a \<open>Particle\<close>, or a Python list of them. A list is an object of
  the caller: the argument is its address in a store of list objects, and the function
  returns the store it leaves behind. The numeric arguments are passed as values: every
  statement of the source that has one of them on its left side rebinds the local name
  (\<open>efract = np.asarray(...)\<close>, \<open>Te = np.repeat(...)\<close>, \<open>probe_vec = probe_vec / ...\<close>), and the
  arrays that are written by index (\<open>chiE\<close>, \<open>chiI\<close>, \<open>econtr\<close>, \<open>icontr\<close>) are created in the call.
\<close>

type_synonym vec3 = "real \<times> real \<times> real"

datatype species_token = Name string | Resolved particle

datatype ion_species_arg = Single species_token | ListObject nat

type_synonym store = "nat \<Rightarrow> species_token list"

text \<open>
  The collaborators of \<open>thomson.py\<close>: the constructor \<open>Particle\<close>, which resolves a string or
  raises; the thermal speed for a temperature and a particle; the electron plasma frequency
  of a density; the susceptibility kernel \<open>permittivity_1D_Maxwellian(w, k, T, n, particle,
  z_mean)\<close>; the speed of light.
\<close>

record thomson_collaborators =
  Particle :: "string \<Rightarrow> error + particle"
  thermal_speed_of :: "real \<Rightarrow> species_token \<Rightarrow> real"
  plasma_frequency :: "real \<Rightarrow> real"
  permittivity_1D_Maxwellian ::
    "real list \<Rightarrow> real list \<Rightarrow> real \<Rightarrow> real \<Rightarrow> species_token \<Rightarrow> real option \<Rightarrow> complex list"
  speed_of_light :: real

text \<open>
  The loop \<open>for ii, ion in enumerate(ion_species)\<close>: an entry that is a \<open>Particle\<close> is kept, a
  string is overwritten in place by \<open>Particle(ion)\<close>. When \<open>Particle\<close> raises, the entries
  before it have been overwritten already and the rest is left. The result is the list as
  the loop leaves it and the error, if any.
\<close>

fun resolve_entries ::
  "(string \<Rightarrow> error + particle) \<Rightarrow> species_token list \<Rightarrow> species_token list \<times> error option" where
  "resolve_entries P [] = ([], None)"
| "resolve_entries P (Resolved p # xs) =
     (case resolve_entries P xs of (ys, e) \<Rightarrow> (Resolved p # ys, e))"
| "resolve_entries P (Name s # xs) =
     (case P s of
        Inl e \<Rightarrow> (Name s # xs, Some e)
      | Inr p \<Rightarrow> (case resolve_entries P xs of (ys, e) \<Rightarrow> (Resolved p # ys, e)))"

fun the_particles :: "species_token list \<Rightarrow> particle list" where
  "the_particles [] = []"
| "the_particles (Resolved p # xs) = p # the_particles xs"
| "the_particles (Name s # xs) = the_particles xs"

text \<open>
  \<open>Condition ion_species\<close>: a single string or \<open>Particle\<close> is put in a new list; an empty list
  raises; then the loop runs on the list, which for a list argument is the caller's object.
\<close>

definition condition_ion_species ::
  "thomson_collaborators \<Rightarrow> store \<Rightarrow> ion_species_arg \<Rightarrow> store \<times> (error + particle list)" where
  "condition_ion_species env h ion_species =
     (case ion_species of
        Single tok \<Rightarrow>
          (case resolve_entries (Particle env) [tok] of
             (l, Some e) \<Rightarrow> (h, Inl e)
           | (l, None) \<Rightarrow> (h, Inr (the_particles l)))
      | ListObject a \<Rightarrow>
          if length (h a) = 0
          then (h, Inl (ValueError [Text ''At least one ion species needs to be defined.'']))
          else (case resolve_entries (Particle env) (h a) of
                  (l, Some e) \<Rightarrow> (h(a := l), Inl e)
                | (l, None) \<Rightarrow> (h(a := l), Inr (the_particles l))))"

text \<open>
  \<open>Condition Te\<close> and \<open>Condition Ti\<close>: one temperature is repeated for every population,
  any other number of temperatures must be the number of populations.
\<close>

definition condition_Te :: "real list \<Rightarrow> real list \<Rightarrow> error + real list" where
  "condition_Te Te efract =
     (if length Te = 1 then Inr (replicate (length efract) (hd Te))
      else if length Te \<noteq> length efract
      then Inl (ValueError [Text ''Got '', Count (length Te),
                  Text '' electron temperatures and expected '', Count (length efract), Text ''.''])
      else Inr Te)"

definition condition_Ti :: "real list \<Rightarrow> particle list \<Rightarrow> error + real list" where
  "condition_Ti Ti ion_species =
     (if length Ti = 1 then Inr (replicate (length ion_species) (hd Ti))
      else if length Ti \<noteq> length ion_species
      then Inl (ValueError [Text ''Got '', Count (length Ti),
                  Text '' ion temperatures and expected '', Count (length ion_species), Text ''.''])
      else Inr Ti)"

text \<open>
  The two consistency checks. The message of the first interpolates \<open>ifract\<close> itself, the
  array, where the message of the second interpolates \<open>efract.size\<close>.
\<close>

definition check_ion_sizes ::
  "particle list \<Rightarrow> real list \<Rightarrow> vec3 list \<Rightarrow> real list \<Rightarrow> error + unit" where
  "check_ion_sizes ion_species ifract ion_vel Ti =
     (if length ion_species \<noteq> length ifract \<or> length ion_vel \<noteq> length ifract
         \<or> length Ti \<noteq> length ifract
      then Inl (ValueError [Text ''Inconsistent number of species in ifract ('', Values ifract,
                  Text ''), ion_species ('', Count (length ion_species),
                  Text ''), Ti ('', Count (length Ti),
                  Text ''), and/or ion_vel ('', Count (length ion_vel), Text '').''])
      else Inr ())"

definition check_electron_sizes :: "real list \<Rightarrow> vec3 list \<Rightarrow> real list \<Rightarrow> error + unit" where
  "check_electron_sizes efract electron_vel Te =
     (if length electron_vel \<noteq> length efract \<or> length Te \<noteq> length efract
      then Inl (ValueError [Text ''Inconsistent number of electron populations in efract ('',
                  Count (length efract), Text ''), Te ('', Count (length Te),
                  Text ''), or electron velocity ('', Count (length electron_vel), Text '').''])
      else Inr ())"

text \<open>Vectors: the Euclidean norm, the division by a number, the dot product, the difference.\<close>

fun norm3 :: "vec3 \<Rightarrow> real" where
  "norm3 (x, y, z) = sqrt (x ^ 2 + y ^ 2 + z ^ 2)"

fun div3 :: "vec3 \<Rightarrow> real \<Rightarrow> vec3" where
  "div3 (x, y, z) c = (x / c, y / c, z / c)"

fun scale3 :: "real \<Rightarrow> vec3 \<Rightarrow> vec3" where
  "scale3 c (x, y, z) = (c * x, c * y, c * z)"

fun dot3 :: "vec3 \<Rightarrow> vec3 \<Rightarrow> real" where
  "dot3 (x, y, z) (x', y', z') = x * x' + y * y' + z * z'"

fun sub3 :: "vec3 \<Rightarrow> vec3 \<Rightarrow> vec3" where
  "sub3 (x, y, z) (x', y', z') = (x - x', y - y', z - z')"

definition mean :: "real list \<Rightarrow> real" where
  "mean xs = sum_list xs / real (length xs)"

text \<open>The sum over the populations (\<open>np.sum(..., axis=0)\<close>) of rows of \<open>nw\<close> entries.\<close>

definition sum_axis0 :: "nat \<Rightarrow> complex list list \<Rightarrow> complex list" where
  "sum_axis0 nw rows = foldr (\<lambda>r acc. map (\<lambda>(x, y). x + y) (zip r acc)) rows (replicate nw 0)"

text \<open>
  Lines 238 to 240: the mean ion charge and the densities of the populations.
\<close>

definition population_densities ::
  "real \<Rightarrow> real list \<Rightarrow> real list \<Rightarrow> real list \<Rightarrow> real \<times> real list \<times> real list" where
  "population_densities n efract ifract ion_z =
     (let zbar = sum_list (map (\<lambda>(f, z). f * z) (zip ifract ion_z));
          ne = map (\<lambda>f. f * n) efract;
          ni = map (\<lambda>f. f * n / zbar) ifract
      in (zbar, ne, ni))"

text \<open>
  Lines 270 to 272 and 321: \<open>alpha = np.sqrt(2) * wpe / np.outer(k, vTe)\<close> has one entry for
  each wavelength and each electron population, and \<open>np.mean(alpha)\<close> is the mean of them all.
\<close>

definition scattering_parameter :: "real \<Rightarrow> real list \<Rightarrow> real list \<Rightarrow> real" where
  "scattering_parameter wpe k vTe =
     mean (concat (map (\<lambda>kj. map (\<lambda>v. sqrt 2 * wpe / (kj * v)) vTe) k))"

text \<open>
  The wavenumbers: \<open>ks\<close> and \<open>kl\<close> from the dispersion relation, then the law of cosines with
  the scattering angle \<open>arccos (probe_vec . scatter_vec)\<close>.
\<close>

definition wavenumbers ::
  "real \<Rightarrow> real \<Rightarrow> real list \<Rightarrow> real \<Rightarrow> vec3 \<Rightarrow> vec3 \<Rightarrow> real list" where
  "wavenumbers C wpe ws wl probe_vec scatter_vec =
     (let ks = map (\<lambda>x. sqrt (x ^ 2 - wpe ^ 2) / C) ws;
          kl = sqrt (wl ^ 2 - wpe ^ 2) / C;
          scattering_angle = arccos (dot3 probe_vec scatter_vec)
      in map (\<lambda>ksj. sqrt (ksj ^ 2 + kl ^ 2 - 2 * ksj * kl * cos scattering_angle)) ks)"

text \<open>
  The Doppler-shifted frequencies \<open>w - np.matmul(vel, np.outer(k, k_vec).T)\<close>: one row for each
  population, one entry for each wavelength.
\<close>

definition doppler :: "real list \<Rightarrow> real list \<Rightarrow> vec3 \<Rightarrow> vec3 list \<Rightarrow> real list list" where
  "doppler w k k_vec vel =
     map (\<lambda>v. map (\<lambda>(wj, kj). wj - dot3 v (scale3 kj k_vec)) (zip w k)) vel"

text \<open>
  The contribution of one population to the spectral density, for every wavelength:
  \<open>fract * (2 * sqrt(pi) * z / k / vT * |ratio|^2 * exp(-x^2))\<close>, where \<open>z\<close> is 1 for electrons.
\<close>

definition contribution ::
  "real \<Rightarrow> real \<Rightarrow> real \<Rightarrow> real list \<Rightarrow> complex list \<Rightarrow> real list \<Rightarrow> complex list" where
  "contribution fract z vT k ratio x =
     map (\<lambda>(kj, rj, xj).
            complex_of_real (fract * (2 * sqrt pi * z / kj / vT * (cmod rj) ^ 2 * exp (- (xj ^ 2)))))
         (zip k (zip ratio x))"

text \<open>
  The computation after the checks, from the unit vectors on (lines 228 to 321). After the
  checks the arrays of one kind of population have the same length, so the loops over
  indices are maps over the zipped lists.
\<close>

definition spectral_physics ::
  "thomson_collaborators \<Rightarrow> real list \<Rightarrow> real \<Rightarrow> real \<Rightarrow> real list \<Rightarrow> real list \<Rightarrow> real list
     \<Rightarrow> real list \<Rightarrow> particle list \<Rightarrow> vec3 list \<Rightarrow> vec3 list \<Rightarrow> vec3 \<Rightarrow> vec3
     \<Rightarrow> real \<times> real list" where
  "spectral_physics env wavelengths probe_wavelength n Te Ti efract ifract ion_species
     electron_vel ion_vel probe_vec scatter_vec =
     (let C = speed_of_light env;
          vTe = map (\<lambda>T. thermal_speed_of env T (Name ''e-'')) Te;
          vTi = map (\<lambda>(T, ion). thermal_speed_of env T (Resolved ion)) (zip Ti ion_species);
          ion_z = map (\<lambda>(T, ion). real_of_int (charge_number ion)) (zip Ti ion_species);
          (zbar, ne, ni) = population_densities n efract ifract ion_z;
          wpe = plasma_frequency env n;
          ws = map (\<lambda>l. 2 * pi * C / l) wavelengths;
          wl = 2 * pi * C / probe_wavelength;
          w = map (\<lambda>x. x - wl) ws;
          k = wavenumbers C wpe ws wl probe_vec scatter_vec;
          k_vec = sub3 scatter_vec probe_vec;
          w_e = doppler w k k_vec electron_vel;
          w_i = doppler w k k_vec ion_vel;
          alpha = scattering_parameter wpe k vTe;
          xe = map (\<lambda>(v, we). map (\<lambda>(kj, wj). (1 / v) * (1 / kj) * wj) (zip k we)) (zip vTe w_e);
          xi = map (\<lambda>(v, wi). map (\<lambda>(kj, wj). (1 / v) * (1 / kj) * wj) (zip k wi)) (zip vTi w_i);
          chiE = map (\<lambda>(fract, we, T, d).
                        permittivity_1D_Maxwellian env we k T d (Name ''e-'') None)
                   (zip efract (zip w_e (zip Te ne)));
          chiI = map (\<lambda>(ion, wi, T, d, z).
                        permittivity_1D_Maxwellian env wi k T d (Resolved ion) (Some z))
                   (zip ion_species (zip w_i (zip Ti (zip ni ion_z))));
          nw = length w;
          sum_chiE = sum_axis0 nw chiE;
          epsilon = map (\<lambda>(a, b). 1 + a + b) (zip sum_chiE (sum_axis0 nw chiI));
          econtr = map (\<lambda>(fract, v, x).
                          contribution fract 1 v k
                            (map (\<lambda>(a, e). 1 - a / e) (zip sum_chiE epsilon)) x)
                     (zip efract (zip vTe xe));
          icontr = map (\<lambda>(fract, z, v, x).
                          contribution fract z v k
                            (map (\<lambda>(a, e). a / e) (zip sum_chiE epsilon)) x)
                     (zip ifract (zip ion_z (zip vTi xi)));
          Skw = map Re (map (\<lambda>(a, b). a + b) (zip (sum_axis0 nw econtr) (sum_axis0 nw icontr)))
      in (alpha, Skw))"

text \<open>
  The numeric part of \<open>spectral_density\<close>, once \<open>ion_species\<close> is a list of particles: the
  defaults, the conditioning of the temperatures, the two consistency checks, the
  normalisation of the two direction vectors, and the computation.
\<close>

definition spectral_density_numeric ::
  "thomson_collaborators \<Rightarrow> real list \<Rightarrow> real \<Rightarrow> real \<Rightarrow> real list \<Rightarrow> real list
     \<Rightarrow> real list option \<Rightarrow> real list option \<Rightarrow> particle list
     \<Rightarrow> vec3 list option \<Rightarrow> vec3 list option \<Rightarrow> vec3 \<Rightarrow> vec3
     \<Rightarrow> error + (real \<times> real list)" where
  "spectral_density_numeric env wavelengths probe_wavelength n Te Ti efract ifract ion_species
     electron_vel ion_vel probe_vec scatter_vec =
     (let efract = (case efract of None \<Rightarrow> [1] | Some e \<Rightarrow> e);
          ifract = (case ifract of None \<Rightarrow> [1] | Some i \<Rightarrow> i);
          electron_vel = (case electron_vel of None \<Rightarrow> replicate (length efract) (0, 0, 0)
                          | Some v \<Rightarrow> v);
          ion_vel = (case ion_vel of None \<Rightarrow> replicate (length ifract) (0, 0, 0) | Some v \<Rightarrow> v)
      in then_e (condition_Te Te efract) (\<lambda>Te.
         then_e (condition_Ti Ti ion_species) (\<lambda>Ti.
         then_e (check_ion_sizes ion_species ifract ion_vel Ti) (\<lambda>_.
         then_e (check_electron_sizes efract electron_vel Te) (\<lambda>_.
           Inr (spectral_physics env wavelengths probe_wavelength n Te Ti efract ifract
                  ion_species electron_vel ion_vel
                  (div3 probe_vec (norm3 probe_vec))
                  (div3 scatter_vec (norm3 scatter_vec))))))))"

text \<open>
  \<open>spectral_density\<close>: the store of the caller's lists goes in and comes out. The source sets
  the defaults before it conditions \<open>ion_species\<close>; the defaults cannot fail and do not read
  \<open>ion_species\<close>, so the model conditions \<open>ion_species\<close> first and does the rest in
  \<open>spectral_density_numeric\<close>.
\<close>

definition spectral_density ::
  "thomson_collaborators \<Rightarrow> store \<Rightarrow> real list \<Rightarrow> real \<Rightarrow> real \<Rightarrow> real list \<Rightarrow> real list
     \<Rightarrow> real list option \<Rightarrow> real list option \<Rightarrow> ion_species_arg
     \<Rightarrow> vec3 list option \<Rightarrow> vec3 list option \<Rightarrow> vec3 \<Rightarrow> vec3
     \<Rightarrow> store \<times> (error + (real \<times> real list))" where
  "spectral_density env h wavelengths probe_wavelength n Te Ti efract ifract ion_species
     electron_vel ion_vel probe_vec scatter_vec =
     (case condition_ion_species env h ion_species of
        (h', Inl e) \<Rightarrow> (h', Inl e)
      | (h', Inr ions) \<Rightarrow>
          (h', spectral_density_numeric env wavelengths probe_wavelength n Te Ti efract ifract
                 ions electron_vel ion_vel probe_vec scatter_vec))"

section \<open>The formulas of the specification\<close>

text \<open>
  The entries of a quantity, and the two formulas for the Coulomb logarithm as the
  specification writes them, on one pair of impact parameters: \<open>ln (bmax / bmin)\<close> and
  \<open>0.5 * ln (1 + (bmax / bmin)^2)\<close>. The clamped formula replaces a value below 2 by 2.
\<close>

fun elems :: "qty \<Rightarrow> fl list" where
  "elems (Scalar a) = [a]"
| "elems (Array xs) = xs"

definition linear_formula :: "fl \<Rightarrow> fl \<Rightarrow> fl" where
  "linear_formula bmax bmin =
     (case (bmax, bmin) of
        (Fin a, Fin b) \<Rightarrow> if b = 0 \<or> a / b \<le> 0 then NaN else Fin (ln (a / b))
      | _ \<Rightarrow> NaN)"

definition hyperbolic_formula :: "fl \<Rightarrow> fl \<Rightarrow> fl" where
  "hyperbolic_formula bmax bmin =
     (case (bmax, bmin) of
        (Fin a, Fin b) \<Rightarrow> if b = 0 then NaN else Fin (1 / 2 * ln (1 + (a / b) ^ 2))
      | _ \<Rightarrow> NaN)"

definition clamped_formula :: "fl \<Rightarrow> fl \<Rightarrow> fl" where
  "clamped_formula bmax bmin =
     (let l = linear_formula bmax bmin in if fl_lt l (Fin 2) then Fin 2 else l)"

section \<open>The table of impact parameters of the specification\<close>

text \<open>
  The per-method table, on one velocity entry for \<open>bmin\<close> and on one temperature and one
  density entry for \<open>bmax\<close>: \<open>lambda_B = hbar / (2 mu V)\<close>, the closest approach \<open>rho_perp\<close>
  with the magnitudes of the two charges in the numerator, the Debye length and the ion-sphere
  radius \<open>a_i\<close> of the density \<open>n_e / z_mean\<close>. The larger of two values is the second one
  unless the first is greater, as in the source.
\<close>

definition fl_max :: "fl \<Rightarrow> fl \<Rightarrow> fl" where
  "fl_max a b = (if fl_gt a b then a else b)"

definition bmin_table :: "collaborators \<Rightarrow> particle \<times> particle \<Rightarrow> real \<Rightarrow> string \<Rightarrow> fl \<Rightarrow> fl" where
  "bmin_table env species mu method v =
     (let lambda_B = fl_div (Fin (hbar env)) (fl_mul (Fin (2 * mu)) v);
          rho_perp = fl_div (Fin (\<bar>charge (fst species)\<bar> * \<bar>charge (snd species)\<bar>))
                       (fl_mul (Fin (4 * pi * eps0 env * mu)) (fl_sq v))
      in if method \<in> set [''classical'', ''ls''] then fl_max rho_perp lambda_B
         else if method \<in> set [''hls_max_interp'', ''GMS-5''] then rho_perp
         else fl_sqrt (fl_add (fl_sq lambda_B) (fl_sq rho_perp)))"

definition bmax_table :: "collaborators \<Rightarrow> string \<Rightarrow> fl \<Rightarrow> fl \<Rightarrow> fl \<Rightarrow> fl" where
  "bmax_table env method z_mean t n =
     (let lambda_De = Debye_length env t n;
          a_i = Wigner_Seitz_radius env (fl_div n z_mean)
      in if method \<in> set [''ls_full_interp'', ''GMS-2'', ''hls_full_interp'', ''GMS-6'',
                           ''hls_max_interp'', ''GMS-5'']
         then fl_sqrt (fl_add (fl_sq lambda_De) (fl_sq a_i))
         else lambda_De)"

definition known_method :: "string \<Rightarrow> bool" where
  "known_method method \<longleftrightarrow>
     linear_family method \<or> clamped_family method \<or> hyperbolic_family method"


text \<open>A result that is not the failure for a missing \<open>z_mean\<close>.\<close>

definition not_z :: "error + 'a \<Rightarrow> bool" where
  "not_z m \<longleftrightarrow> m \<noteq> Inl (ValueError [Text z_mean_message])"


section \<open>The quantities of the specification for the Thomson engine\<close>

text \<open>
  The electron populations (one unit fraction when \<open>efract\<close> is omitted), their thermal speeds
  (one temperature is repeated for every population), the scattering wavenumbers of the
  sampled wavelengths for the two direction vectors, and the mean across the wavelengths of
  \<open>sqrt(2) * wpe / (k * vTe)\<close> for one thermal speed \<open>vTe\<close>.
\<close>

definition electron_populations :: "real list option \<Rightarrow> real list" where
  "electron_populations efract = (case efract of None \<Rightarrow> [1] | Some e \<Rightarrow> e)"

definition electron_thermal_speeds ::
  "thomson_collaborators \<Rightarrow> real list \<Rightarrow> real list option \<Rightarrow> real list" where
  "electron_thermal_speeds env Te efract =
     map (\<lambda>T. thermal_speed_of env T (Name ''e-''))
       (if length Te = 1 then replicate (length (electron_populations efract)) (hd Te) else Te)"

definition scattering_wavenumbers ::
  "thomson_collaborators \<Rightarrow> real list \<Rightarrow> real \<Rightarrow> real \<Rightarrow> vec3 \<Rightarrow> vec3 \<Rightarrow> real list" where
  "scattering_wavenumbers env wavelengths probe_wavelength n probe_vec scatter_vec =
     wavenumbers (speed_of_light env) (plasma_frequency env n)
       (map (\<lambda>l. 2 * pi * speed_of_light env / l) wavelengths)
       (2 * pi * speed_of_light env / probe_wavelength)
       (div3 probe_vec (norm3 probe_vec)) (div3 scatter_vec (norm3 scatter_vec))"

definition mean_over_wavelengths :: "real \<Rightarrow> real list \<Rightarrow> real \<Rightarrow> real" where
  "mean_over_wavelengths wpe k vTe = mean (map (\<lambda>kj. sqrt 2 * wpe / (kj * vTe)) k)"


text \<open>
  An entry of the caller's list before and after the call: a \<open>Particle\<close> is kept, a string
  has become the \<open>Particle\<close> it resolves to.
\<close>

fun entry_resolved ::
  "(string \<Rightarrow> error + particle) \<Rightarrow> species_token \<Rightarrow> species_token \<Rightarrow> bool" where
  "entry_resolved P (Resolved q) (Resolved p) = (q = p)"
| "entry_resolved P (Name s) (Resolved p) = (P s = Inr p)"
| "entry_resolved P _ (Name _) = False"


section \<open>Example collaborators\<close>

text \<open>
  One concrete choice of the collaborators, with the textbook formulas in units where the
  Boltzmann constant, the elementary charge, \<open>hbar\<close> and \<open>4 * pi * eps0\<close> are 1, and two
  particles of opposite unit charge. They serve to run the model on concrete inputs.
\<close>

definition example_collaborators :: collaborators where
  "example_collaborators =
     \<lparr> thermal_speed = (\<lambda>t m. fl_sqrt (fl_div (fl_mul (Fin 2) t) (Fin m))),
       Debye_length = (\<lambda>t n. fl_sqrt (fl_div t n)),
       Wigner_Seitz_radius =
         (\<lambda>n. case n of NaN \<Rightarrow> NaN
               | Fin x \<Rightarrow> if x \<le> 0 then NaN else Fin (root 3 (3 / (4 * pi * x)))),
       reduced_mass = (\<lambda>p q. mass p * mass q / (mass p + mass q)),
       check_relativistic =
         (\<lambda>V. if any_q (\<lambda>v. case v of Fin x \<Rightarrow> 299792458 \<le> \<bar>x\<bar> | NaN \<Rightarrow> False) V
              then Some (RelativityError ''V is too fast'') else None),
       hbar = 1,
       eps0 = 1 / (4 * pi) \<rparr>"

definition negative_particle :: particle where
  "negative_particle = \<lparr> mass = 2, charge = - 1, charge_number = - 1 \<rparr>"

definition positive_particle :: particle where
  "positive_particle = \<lparr> mass = 2, charge = 1, charge_number = 1 \<rparr>"

text \<open>
  Collaborators for \<open>thomson.py\<close> in the same units, with an electron of mass 1, a susceptibility
  kernel that is zero, and a store whose only list is \<open>["H+", Particle("He-4 2+")]\<close> at address 0.
\<close>

definition proton :: particle where
  "proton = \<lparr> mass = 1836, charge = 1, charge_number = 1 \<rparr>"

definition alpha_particle :: particle where
  "alpha_particle = \<lparr> mass = 7344, charge = 2, charge_number = 2 \<rparr>"

definition example_thomson :: thomson_collaborators where
  "example_thomson =
     \<lparr> Particle = (\<lambda>s. if s = ''H+'' then Inr proton
                       else if s = ''He-4 2+'' then Inr alpha_particle
                       else Inl (InvalidParticleError s)),
       thermal_speed_of =
         (\<lambda>T p. sqrt (2 * T / (case p of Name s \<Rightarrow> 1 | Resolved q \<Rightarrow> mass q))),
       plasma_frequency = (\<lambda>n. sqrt n),
       permittivity_1D_Maxwellian = (\<lambda>w k T n p z. map (\<lambda>(wj, kj). 0) (zip w k)),
       speed_of_light = 1 \<rparr>"


definition example_store :: store where
  "example_store = (\<lambda>a. [])(0 := [Name ''H+'', Resolved alpha_particle])"


section \<open>Basic facts\<close>

lemma then_e_simps [simp]: "then_e (Inl e) f = Inl e" "then_e (Inr x) f = f x"
  by (simp_all add: then_e_def)

lemma bop_uop_post: "then_e (bop f a b) (\<lambda>r. Inr (uop h r)) = bop (\<lambda>x y. h (f x y)) a b"
  by (cases a; cases b) (auto split: list.splits)

lemma bop_uop_pre: "bop f (uop g a) (uop g b) = bop (\<lambda>x y. f (g x) (g y)) a b"
  by (cases a; cases b) (auto split: list.splits simp: zip_map_map)

lemma uop_uop: "uop f (uop g q) = uop (\<lambda>x. f (g x)) q"
  by (cases q) simp_all

lemma fl_div_sq: "fl_div (fl_sq a) (fl_sq b) = fl_sq (fl_div a b)"
  by (cases a; cases b) (auto simp: power_divide)

lemma linear_formula_eq: "fl_log (fl_div a b) = linear_formula a b"
  by (cases a; cases b) (auto simp: linear_formula_def)

lemma hyperbolic_formula_eq:
  "fl_mul (Fin (1 / 2)) (fl_log (fl_add (Fin 1) (fl_div (fl_sq a) (fl_sq b))))
     = hyperbolic_formula a b"
proof (cases a; cases b)
  fix x y assume "a = Fin x" "b = Fin y"
  moreover have "0 < 1 + (x / y)\<^sup>2" by (smt (verit) zero_le_power2)
  ultimately show ?thesis by (auto simp: hyperbolic_formula_def power_divide)
qed (auto simp: hyperbolic_formula_def)

lemma family_disjoint:
  "hyperbolic_family m \<Longrightarrow> \<not> linear_family m \<and> \<not> clamped_family m"
  "clamped_family m \<Longrightarrow> \<not> linear_family m"
  by (auto simp: hyperbolic_family_def linear_family_def clamped_family_def)

lemma clamp_at_2_uop: "clamp_at_2 q = uop (\<lambda>x. if fl_lt x (Fin 2) then Fin 2 else x) q"
proof (cases q)
  case (Scalar a)
  then show ?thesis by (simp add: clamp_at_2_def)
next
  case (Array xs)
  have "\<not> list_ex (\<lambda>x. fl_lt x (Fin 2)) xs \<Longrightarrow>
        map (\<lambda>x. if fl_lt x (Fin 2) then Fin 2 else x) xs = xs"
    by (induction xs) auto
  with Array show ?thesis by (simp add: clamp_at_2_def)
qed

lemma elems_bop:
  assumes "bop f a b = Inr r" and "x \<in> set (elems r)"
  shows "\<exists>p \<in> set (elems a). \<exists>q \<in> set (elems b). x = f p q"
proof (cases a)
  case sa: (Scalar p)
  show ?thesis using assms sa by (cases b) auto
next
  case aa: (Array xs)
  show ?thesis
  proof (cases b)
    case (Scalar q)
    then show ?thesis using assms aa by auto
  next
    case ab: (Array ys)
    show ?thesis
    proof (cases "length xs = length ys")
      case True
      then have "r = Array (map (\<lambda>(x, y). f x y) (zip xs ys))" using assms aa ab by simp
      then obtain p q where "(p, q) \<in> set (zip xs ys)" "x = f p q" using assms(2) by auto
      then show ?thesis using aa ab by (auto dest: set_zip_leftD set_zip_rightD)
    next
      case False
      then show ?thesis using assms aa ab by (auto split: list.splits)
    qed
  qed
qed

lemma ln_2_lt_2: "ln (2::real) < 2"
  using ln_less_self[of "2::real"] by simp

lemma ln_10_bounds: "2 \<le> ln (10::real)" "ln (10::real) < 4"
proof -
  have e3: "exp (1::real) \<le> 3" by (rule exp_le)
  have e2: "(2::real) \<le> exp 1" using exp_ge_add_one_self[of "1::real"] by simp
  have "exp (2::real) = exp 1 * exp 1" by (simp flip: exp_add)
  also have "\<dots> \<le> 3 * 3" using e3 by (intro mult_mono) auto
  finally have "exp (2::real) \<le> 10" by simp
  then show "2 \<le> ln (10::real)" by (simp add: ln_ge_iff)
  have "exp (4::real) = (exp 1 * exp 1) * (exp 1 * exp 1)" by (simp flip: exp_add)
  moreover have "(2 * 2) * (2 * 2) \<le> (exp 1 * exp 1) * (exp (1::real) * exp 1)"
    using e2 by (intro mult_mono) auto
  ultimately have "(10::real) < exp 4" by simp
  then have "ln (10::real) < ln (exp 4)" by (subst ln_less_cancel_iff) auto
  then show "ln (10::real) < 4" by simp
qed

lemma sqrt_25_81: "sqrt (25 / 81) = 5 / 9"
  by (rule real_sqrt_unique) (simp_all add: power2_eq_square)

lemmas example_defs = example_collaborators_def negative_particle_def positive_particle_def
  impact_parameter_def boilerPlate_def replaceNanVwithThermalV_def impact_parameter_perp_def
  needs_z_mean_def quad_sum_def ion_sphere_bmax_def

lemma example_classical:
  "impact_parameter example_collaborators (Scalar (Fin 4)) (Scalar (Fin 1))
     (negative_particle, positive_particle) NaN (Some (Scalar (Fin 1))) ''classical''
   = Inr (Scalar (Fin 1), Scalar (Fin 2))"
  by (simp add: example_defs)

lemma example_classical_array:
  "impact_parameter example_collaborators (Array [Fin 4, Fin 100]) (Scalar (Fin 1))
     (negative_particle, positive_particle) NaN (Some (Scalar (Fin 1))) ''classical''
   = Inr (Array [Fin 1, Fin 1], Array [Fin 2, Fin 10])"
  by (simp add: example_defs)

lemma example_GMS_3:
  "impact_parameter example_collaborators (Scalar (Fin 4)) (Scalar (Fin 1))
     (negative_particle, positive_particle) NaN (Some (Scalar (Fin (3 / 2)))) ''GMS-3''
   = Inr (Scalar (Fin (5 / 9)), Scalar (Fin 2))"
  by (simp add: example_defs power2_eq_square sqrt_25_81)

lemma example_GMS_4:
  "impact_parameter example_collaborators (Scalar (Fin 4)) (Scalar (Fin 1))
     (negative_particle, positive_particle) NaN (Some (Scalar (Fin (3 / 2)))) ''GMS-4''
   = Inr (Scalar (Fin (5 / 9)), Scalar (Fin 2))"
  by (simp add: example_defs power2_eq_square sqrt_25_81)

lemma ln_18_5_lt_2: "ln (18 / 5) < (2::real)"
proof -
  have e2: "(2::real) \<le> exp 1" using exp_ge_add_one_self[of "1::real"] by simp
  have "exp (2::real) = exp 1 * exp 1" by (simp flip: exp_add)
  moreover have "2 * 2 \<le> exp 1 * exp (1::real)" using e2 by (intro mult_mono) auto
  ultimately have "(18 / 5 :: real) < exp 2" by simp
  then have "ln (18 / 5 :: real) < ln (exp 2)" by (subst ln_less_cancel_iff) auto
  then show ?thesis by simp
qed

lemma example_classical_value:
  "ln_Lambda_value example_collaborators (Scalar (Fin 4)) (Scalar (Fin 1))
     (negative_particle, positive_particle) NaN (Some (Scalar (Fin 1))) ''classical''
   = Inr (Scalar (Fin (ln 2)))"
  by (simp add: ln_Lambda_value_def example_classical linear_family_def)

section \<open>Facts about the impact parameters\<close>

lemma map_zip_same: "map (\<lambda>(x, y). f x y) (zip (map g xs) xs) = map (\<lambda>x. f (g x) x) xs"
  by (induction xs) auto

lemma replaceNanV_idem:
  assumes "replaceNanVwithThermalV env V T m = Inr V'" and "\<not> any_q fl_is_zero V'"
  shows "replaceNanVwithThermalV env (Some V') T m = Inr V'"
proof -
  let ?th = "\<lambda>t. thermal_speed env t m"
  have thermal: "replaceNanVwithThermalV env (Some (uop ?th T)) T m = Inr (uop ?th T)"
    if "\<not> any_q fl_is_zero (uop ?th T)"
  proof (cases T)
    case (Scalar t)
    then show ?thesis using that by (simp add: replaceNanVwithThermalV_def)
  next
    case (Array ts)
    have "map (\<lambda>(x, t). if isnan x then ?th t else x) (zip (map ?th ts) ts) = map ?th ts"
      by (induction ts) auto
    then show ?thesis using that Array by (simp add: replaceNanVwithThermalV_def)
  qed
  show ?thesis
  proof (cases V)
    case None
    then show ?thesis using assms thermal by (auto simp: replaceNanVwithThermalV_def)
  next
    case (Some v)
    show ?thesis
    proof (cases "any_q isnan v")
      case False
      then show ?thesis using assms Some
        by (auto simp: replaceNanVwithThermalV_def split: if_splits)
    next
      case nan: True
      have nz: "\<not> any_q fl_is_zero v" using assms Some
        by (auto simp: replaceNanVwithThermalV_def split: if_splits)
      show ?thesis
      proof (cases v)
        case (Scalar x)
        then have "V' = uop ?th T" using assms Some nan nz
          by (simp add: replaceNanVwithThermalV_def)
        then show ?thesis using thermal assms by simp
      next
        case (Array vs)
        show ?thesis
        proof (cases T)
          case (Scalar t)
          let ?g = "\<lambda>x. if isnan x then ?th t else x"
          have V': "V' = Array (map ?g vs)" using assms Some nan nz Array Scalar
            by (simp add: replaceNanVwithThermalV_def)
          have "map ?g (map ?g vs) = map ?g vs" by (induction vs) auto
          moreover have "\<not> list_ex isnan (map ?g vs) \<Longrightarrow> True" by simp
          ultimately show ?thesis using assms(2) V' Scalar
            by (auto simp: replaceNanVwithThermalV_def comp_def)
        next
          case Tarr: (Array ts)
          let ?g = "\<lambda>(x, t). if isnan x then ?th t else x"
          have len: "length ts = length vs" using assms Some nan nz Array Tarr
            by (auto simp: replaceNanVwithThermalV_def split: if_splits)
          have V': "V' = Array (map ?g (zip vs ts))" using assms Some nan nz Array Tarr len
            by (simp add: replaceNanVwithThermalV_def)
          have "length vs = length ts \<Longrightarrow> map ?g (zip (map ?g (zip vs ts)) ts) = map ?g (zip vs ts)"
            by (induction vs ts rule: list_induct2) auto
          then show ?thesis using assms(2) V' Tarr len
            by (auto simp: replaceNanVwithThermalV_def)
        qed
      qed
    qed
  qed
qed

lemma boilerPlate_idem:
  assumes "boilerPlate env T species V = Inr (ch, mu, V')" and "\<not> any_q fl_is_zero V'"
  shows "boilerPlate env T species (Some V') = Inr (ch, mu, V')"
proof -
  let ?mu = "reduced_mass env (fst species) (snd species)"
  obtain W where W: "replaceNanVwithThermalV env V T ?mu = Inr W"
    using assms(1) by (cases "replaceNanVwithThermalV env V T ?mu") (auto simp: boilerPlate_def Let_def)
  then have "W = V'" "check_relativistic env V' = None" "mu = ?mu"
    "ch = (\<bar>charge (fst species)\<bar>, \<bar>charge (snd species)\<bar>)"
    using assms(1) by (auto simp: boilerPlate_def Let_def split: option.splits)
  then show ?thesis using replaceNanV_idem[OF W] assms(2)
    by (simp add: boilerPlate_def Let_def)
qed

lemma boilerPlate_fields:
  assumes "boilerPlate env T species V = Inr (ch, mu, V')"
  shows "mu = reduced_mass env (fst species) (snd species)"
    and "ch = (\<bar>charge (fst species)\<bar>, \<bar>charge (snd species)\<bar>)"
    and "check_relativistic env V' = None"
  using assms
  by (cases "replaceNanVwithThermalV env V T (reduced_mass env (fst species) (snd species))";
      auto simp: boilerPlate_def Let_def split: option.splits)+

lemma classical_bmin_same_shape:
  "classical_bmin (uop f q) (uop g q) = Inr (uop (\<lambda>v. fl_max (f v) (g v)) q)"
proof (cases q)
  case (Scalar a)
  then show ?thesis by (simp add: fl_max_def)
next
  case (Array xs)
  have "map (\<lambda>(b, l). if fl_gt b l then b else l) (zip (map f xs) (map g xs))
        = map (\<lambda>v. fl_max (f v) (g v)) xs"
    by (induction xs) (auto simp: fl_max_def)
  then show ?thesis using Array
    by (cases xs rule: list.exhaust; cases "tl xs") (auto simp: fl_max_def)
qed

lemma quad_sum_same_shape:
  "quad_sum (uop f q) (uop g q) = Inr (uop (\<lambda>v. fl_sqrt (fl_add (fl_sq (f v)) (fl_sq (g v)))) q)"
proof (cases q)
  case (Scalar a)
  then show ?thesis by (simp add: quad_sum_def)
next
  case (Array xs)
  have "map (\<lambda>(x, y). fl_add x y) (zip (map (\<lambda>x. fl_sq (f x)) xs) (map (\<lambda>x. fl_sq (g x)) xs))
        = map (\<lambda>v. fl_add (fl_sq (f v)) (fl_sq (g v))) xs"
    by (induction xs) auto
  then show ?thesis using Array by (simp add: quad_sum_def comp_def)
qed

lemma bop_error_same: "bop f a b = Inl e \<Longrightarrow> bop g a b = Inl e"
  by (cases a; cases b) (auto split: list.splits if_splits)

lemma ion_sphere_bmax_elementwise:
  assumes "bop D T n = Inr l"
  shows "then_e (bop fl_div n (Scalar z)) (\<lambda>n_i. quad_sum l (uop w n_i))
         = bop (\<lambda>t x. fl_sqrt (fl_add (fl_sq (D t x)) (fl_sq (w (fl_div x z))))) T n"
proof (cases T)
  case Ts: (Scalar t)
  show ?thesis
  proof (cases n)
    case (Scalar x)
    then show ?thesis using assms Ts by (auto simp: quad_sum_def)
  next
    case (Array xs)
    have "map (\<lambda>(x, y). fl_add x y)
            (zip (map (\<lambda>x. fl_sq (D t x)) xs) (map (\<lambda>x. fl_sq (w (fl_div x z))) xs))
          = map (\<lambda>x. fl_add (fl_sq (D t x)) (fl_sq (w (fl_div x z)))) xs"
      by (induction xs) auto
    then show ?thesis using assms Ts Array by (auto simp: quad_sum_def comp_def)
  qed
next
  case Ta: (Array ts)
  show ?thesis
  proof (cases n)
    case (Scalar x)
    then show ?thesis using assms Ta by (auto simp: quad_sum_def comp_def)
  next
    case (Array xs)
    have same: "map (\<lambda>(x, y). fl_add x y)
            (zip (map (\<lambda>x. fl_sq (D t x)) xs) (map (\<lambda>x. fl_sq (w (fl_div x z))) xs))
          = map (\<lambda>x. fl_add (fl_sq (D t x)) (fl_sq (w (fl_div x z)))) xs" for t
      by (induction xs) auto
    have eq: "length ts = length xs \<Longrightarrow>
          map (\<lambda>(x, y). fl_add x y)
            (zip (map (\<lambda>x. fl_sq x) (map (\<lambda>(t, x). D t x) (zip ts xs)))
                 (map (\<lambda>x. fl_sq (w (fl_div x z))) xs))
          = map (\<lambda>(t, x). fl_add (fl_sq (D t x)) (fl_sq (w (fl_div x z)))) (zip ts xs)"
      by (induction ts xs rule: list_induct2) auto
    show ?thesis
    proof (cases "length ts = length xs")
      case True
      then show ?thesis using assms Ta Array eq
        by (auto simp: quad_sum_def comp_def case_prod_unfold)
    next
      case False
      then show ?thesis using assms Ta Array same
        by (auto simp: quad_sum_def comp_def split: list.splits)
    qed
  qed
qed

lemma then_e_assoc: "then_e (then_e m f) g = then_e m (\<lambda>x. then_e (f x) g)"
  by (cases m) simp_all

lemma impact_parameter_perp_value:
  assumes "boilerPlate env T species V = Inr (ch, mu, V')" and "\<not> any_q fl_is_zero V'"
  shows "impact_parameter_perp env T species (Some V')
         = Inr (uop (\<lambda>v. fl_div (Fin (\<bar>charge (fst species)\<bar> * \<bar>charge (snd species)\<bar>))
                         (fl_mul (Fin (4 * pi * eps0 env * mu)) (fl_sq v))) V')"
  using boilerPlate_idem[OF assms] boilerPlate_fields(2)[OF assms(1)]
  by (simp add: impact_parameter_perp_def)

lemma known_method_cases:
  "known_method method \<longleftrightarrow>
     method = ''classical'' \<or> method = ''ls'' \<or> method = ''ls_min_interp'' \<or> method = ''GMS-1''
     \<or> method = ''ls_full_interp'' \<or> method = ''GMS-2'' \<or> method = ''ls_clamp_mininterp''
     \<or> method = ''GMS-3'' \<or> method = ''hls_min_interp'' \<or> method = ''GMS-4''
     \<or> method = ''hls_max_interp'' \<or> method = ''GMS-5'' \<or> method = ''hls_full_interp''
     \<or> method = ''GMS-6''"
  by (auto simp: known_method_def linear_family_def clamped_family_def hyperbolic_family_def)

lemma impact_parameter_closed_form:
  assumes bp: "boilerPlate env T species V = Inr (ch, mu, V')"
    and nz: "\<not> any_q fl_is_zero V'"
    and zm: "needs_z_mean method \<longrightarrow> \<not> isnan z_mean"
    and km: "known_method method"
  shows "impact_parameter env T n_e species z_mean V method =
           then_e (bop (bmax_table env method z_mean) T n_e) (\<lambda>bmax.
             Inr (repeat_bmin (uop (bmin_table env species mu method) V') bmax, bmax))"
proof (cases "bop (Debye_length env) T n_e")
  case (Inl e)
  have zm': "\<not> (needs_z_mean method \<and> isnan z_mean)" using zm by blast
  from Inl have "bop (bmax_table env method z_mean) T n_e = Inl e" by (rule bop_error_same)
  then show ?thesis using bp zm Inl
    by (cases "needs_z_mean method") (simp_all add: impact_parameter_def)
next
  case (Inr lambdaDe)
  have zm': "\<not> (needs_z_mean method \<and> isnan z_mean)" using zm by blast
  let ?lB = "\<lambda>v. fl_div (Fin (hbar env)) (fl_mul (Fin (2 * mu)) v)"
  let ?rho = "\<lambda>v. fl_div (Fin (\<bar>charge (fst species)\<bar> * \<bar>charge (snd species)\<bar>))
                         (fl_mul (Fin (4 * pi * eps0 env * mu)) (fl_sq v))"
  have perp: "impact_parameter_perp env T species (Some V') = Inr (uop ?rho V')"
    by (rule impact_parameter_perp_value[OF bp nz])
  have ion: "ion_sphere_bmax env lambdaDe n_e z_mean
      = bop (\<lambda>t x. fl_sqrt (fl_add (fl_sq (Debye_length env t x))
                 (fl_sq (Wigner_Seitz_radius env (fl_div x z_mean))))) T n_e"
    unfolding ion_sphere_bmax_def by (rule ion_sphere_bmax_elementwise[OF Inr])
  have De: "bop (\<lambda>t. Debye_length env t) T n_e = Inr lambdaDe" using Inr by simp
  have step: "impact_parameter env T n_e species z_mean V method =
      then_e
         (if method = ''classical'' \<or> method = ''ls''
          then Inr (uop (\<lambda>v. fl_max (?rho v) (?lB v)) V', lambdaDe)
          else if method = ''ls_min_interp'' \<or> method = ''GMS-1''
          then Inr (uop (\<lambda>v. fl_sqrt (fl_add (fl_sq (?lB v)) (fl_sq (?rho v)))) V', lambdaDe)
          else if method = ''ls_full_interp'' \<or> method = ''GMS-2''
          then then_e (ion_sphere_bmax env lambdaDe n_e z_mean) (\<lambda>bmax.
                 Inr (uop (\<lambda>v. fl_sqrt (fl_add (fl_sq (?lB v)) (fl_sq (?rho v)))) V', bmax))
          else if method = ''ls_clamp_mininterp'' \<or> method = ''GMS-3''
          then Inr (uop (\<lambda>v. fl_sqrt (fl_add (fl_sq (?lB v)) (fl_sq (?rho v)))) V', lambdaDe)
          else if method = ''hls_min_interp'' \<or> method = ''GMS-4''
          then Inr (uop (\<lambda>v. fl_sqrt (fl_add (fl_sq (?lB v)) (fl_sq (?rho v)))) V', lambdaDe)
          else if method = ''hls_max_interp'' \<or> method = ''GMS-5''
          then then_e (ion_sphere_bmax env lambdaDe n_e z_mean) (\<lambda>bmax. Inr (uop ?rho V', bmax))
          else if method = ''hls_full_interp'' \<or> method = ''GMS-6''
          then then_e (ion_sphere_bmax env lambdaDe n_e z_mean) (\<lambda>bmax.
                 Inr (uop (\<lambda>v. fl_sqrt (fl_add (fl_sq (?lB v)) (fl_sq (?rho v)))) V', bmax))
          else Inl (ValueError [Text ''Method '', Text method, Text '' not found!'']))
         (\<lambda>(bmin, bmax). Inr (repeat_bmin bmin bmax, bmax))"
    using bp zm Inr perp
    by (cases "needs_z_mean method")
      (simp_all add: impact_parameter_def Let_def classical_bmin_same_shape quad_sum_same_shape)
  from km show ?thesis unfolding known_method_cases
  proof (elim disjE)
    assume "method = ''classical''"
    then show ?thesis unfolding step using De
      by (simp add: bmax_table_def[abs_def] bmin_table_def[abs_def] Let_def)
  next
    assume "method = ''ls''"
    then show ?thesis unfolding step using De
      by (simp add: bmax_table_def[abs_def] bmin_table_def[abs_def] Let_def)
  next
    assume "method = ''ls_min_interp''"
    then show ?thesis unfolding step using De
      by (simp add: bmax_table_def[abs_def] bmin_table_def[abs_def] Let_def)
  next
    assume "method = ''GMS-1''"
    then show ?thesis unfolding step using De
      by (simp add: bmax_table_def[abs_def] bmin_table_def[abs_def] Let_def)
  next
    assume "method = ''ls_full_interp''"
    then show ?thesis unfolding step ion
      by (simp add: bmax_table_def[abs_def] bmin_table_def[abs_def] Let_def then_e_assoc)
  next
    assume "method = ''GMS-2''"
    then show ?thesis unfolding step ion
      by (simp add: bmax_table_def[abs_def] bmin_table_def[abs_def] Let_def then_e_assoc)
  next
    assume "method = ''ls_clamp_mininterp''"
    then show ?thesis unfolding step using De
      by (simp add: bmax_table_def[abs_def] bmin_table_def[abs_def] Let_def)
  next
    assume "method = ''GMS-3''"
    then show ?thesis unfolding step using De
      by (simp add: bmax_table_def[abs_def] bmin_table_def[abs_def] Let_def)
  next
    assume "method = ''hls_min_interp''"
    then show ?thesis unfolding step using De
      by (simp add: bmax_table_def[abs_def] bmin_table_def[abs_def] Let_def)
  next
    assume "method = ''GMS-4''"
    then show ?thesis unfolding step using De
      by (simp add: bmax_table_def[abs_def] bmin_table_def[abs_def] Let_def)
  next
    assume "method = ''hls_max_interp''"
    then show ?thesis unfolding step ion
      by (simp add: bmax_table_def[abs_def] bmin_table_def[abs_def] Let_def then_e_assoc)
  next
    assume "method = ''GMS-5''"
    then show ?thesis unfolding step ion
      by (simp add: bmax_table_def[abs_def] bmin_table_def[abs_def] Let_def then_e_assoc)
  next
    assume "method = ''hls_full_interp''"
    then show ?thesis unfolding step ion
      by (simp add: bmax_table_def[abs_def] bmin_table_def[abs_def] Let_def then_e_assoc)
  next
    assume "method = ''GMS-6''"
    then show ?thesis unfolding step ion
      by (simp add: bmax_table_def[abs_def] bmin_table_def[abs_def] Let_def then_e_assoc)
  qed
qed

lemma not_z_then: "not_z m \<Longrightarrow> (\<And>x. m = Inr x \<Longrightarrow> not_z (f x)) \<Longrightarrow> not_z (then_e m f)"
  by (cases m) (auto simp: not_z_def)

lemma not_z_Inr [simp]: "not_z (Inr x)"
  by (simp add: not_z_def)

lemma not_z_if: "not_z a \<Longrightarrow> not_z b \<Longrightarrow> not_z (if c then a else b)"
  by simp

lemma bop_error: "bop f a b = Inl e \<Longrightarrow> e = ValueError [Text ''operands could not be broadcast together'']"
  by (cases a; cases b) (auto split: list.splits if_splits)

lemma not_z_bop: "not_z (bop f a b)"
  using bop_error[of f a b] by (auto simp: not_z_def z_mean_message_def)

lemma not_z_quad_sum: "not_z (quad_sum a b)"
  unfolding quad_sum_def by (intro not_z_then not_z_bop) simp

lemma not_z_classical_bmin: "not_z (classical_bmin a b)"
  by (cases a; cases b) (auto simp: not_z_def z_mean_message_def split: list.splits)

lemma not_z_ion_sphere: "not_z (ion_sphere_bmax env l n z)"
  unfolding ion_sphere_bmax_def by (intro not_z_then not_z_bop not_z_quad_sum)

lemma not_z_method: "not_z (Inl (ValueError [Text ''Method '', Text method, Text '' not found!'']))"
  by (simp add: not_z_def z_mean_message_def)

lemma not_z_perp:
  assumes "boilerPlate env T species V = Inr (ch, mu, V')"
  shows "not_z (impact_parameter_perp env T species (Some V'))"
proof (cases "any_q fl_is_zero V'")
  case True
  then show ?thesis
    by (simp add: impact_parameter_perp_def boilerPlate_def replaceNanVwithThermalV_def
        not_z_def Let_def)
next
  case False
  then show ?thesis using impact_parameter_perp_value[OF assms False] by simp
qed

lemma not_z_impact_parameter:
  assumes "boilerPlate env T species V = Inr (ch, mu, V')" and "\<not> isnan z_mean"
  shows "not_z (impact_parameter env T n_e species z_mean V method)"
  using assms unfolding impact_parameter_def
  by (simp add: Let_def del: append.simps)
     (intro not_z_then not_z_if not_z_bop not_z_perp[OF assms(1)] not_z_quad_sum
        not_z_classical_bmin not_z_ion_sphere not_z_method; simp split: prod.splits)

lemma not_z_Coulomb_logarithm:
  assumes "boilerPlate env T species V = Inr (ch, mu, V')" and "\<not> isnan z_mean"
  shows "not_z (Coulomb_logarithm env T n_e species z_mean V method)"
proof -
  have u: "not_z (Inl (ValueError [Text ''Unknown method.'']) :: error + qty)"
    by (simp add: not_z_def z_mean_message_def)
  have "not_z (ln_Lambda_value env T n_e species z_mean V method)"
    unfolding ln_Lambda_value_def
    by (intro not_z_then not_z_impact_parameter[OF assms])
       (auto intro!: not_z_then not_z_bop u)
  then show ?thesis unfolding Coulomb_logarithm_def by (intro not_z_then) simp_all
qed

lemma impact_parameter_z_mean_unused:
  assumes "\<not> needs_z_mean method"
  shows "impact_parameter env T n_e species z V method
         = impact_parameter env T n_e species z' V method"
  using assms by (simp add: impact_parameter_def needs_z_mean_def Let_def cong: if_cong)

lemma bop_total_cong: "bop f a b = Inr r \<Longrightarrow> \<exists>r'. bop g a b = Inr r'"
  by (cases a; cases b) (auto split: list.splits if_splits)

lemma bop_Scalar_left: "\<exists>r. bop f (Scalar a) b = Inr r"
  by (cases b) auto


lemma example_boilerPlate:
  "boilerPlate example_collaborators (Scalar (Fin 4)) (negative_particle, positive_particle)
     (Some (Scalar (Fin 1))) = Inr ((1, 1), 1, Scalar (Fin 1))"
  by (simp add: example_defs)


lemma sum_sq_not_neg: "0 \<le> a \<Longrightarrow> \<not> a + x\<^sup>2 < (0::real)"
  by (smt (verit) zero_le_power2)

lemma example_tables:
  "bmin_table example_collaborators (negative_particle, positive_particle) 1 ''classical'' (Fin 1)
     = Fin 1"
  "bmin_table example_collaborators (negative_particle, positive_particle) 1 ''GMS-5'' (Fin 1)
     = Fin 1"
  "bmax_table example_collaborators ''classical'' z (Fin 4) (Fin 1) = Fin 2"
  "bmax_table example_collaborators ''GMS-5'' (Fin 1) (Fin 4) (Fin 1)
     = Fin (sqrt (4 + (root 3 (3 / (4 * pi)))\<^sup>2))"
  "bmax_table example_collaborators ''GMS-5'' (Fin 1) (Fin 4) (Fin 4)
     = Fin (sqrt (1 + (root 3 (3 / (16 * pi)))\<^sup>2))"
  by (simp_all add: bmax_table_def bmin_table_def fl_max_def example_collaborators_def
      negative_particle_def positive_particle_def sum_sq_not_neg)


section \<open>The Coulomb logarithm\<close>

text \<open>
  Claim C1. Whenever \<open>impact_parameter\<close> returns \<open>(bmin, bmax)\<close> for the arguments of
  \<open>Coulomb_logarithm\<close>, the value of \<open>Coulomb_logarithm\<close> is, entry by entry with numpy's
  broadcasting, \<open>ln (bmax / bmin)\<close> for the methods of the linear family and
  \<open>0.5 * ln (1 + (bmax / bmin)^2)\<close> for the methods of the hyperbolic family; it is a plain
  scalar or array, and the call fails only where the two impact parameters cannot be
  broadcast together.
\<close>

theorem Coulomb_logarithm_formula:
  assumes "impact_parameter env T n_e species z_mean V method = Inr (bmin, bmax)"
  shows "(linear_family method \<longrightarrow>
            map_sum id fst (Coulomb_logarithm env T n_e species z_mean V method)
              = bop linear_formula bmax bmin)
       \<and> (hyperbolic_family method \<longrightarrow>
            map_sum id fst (Coulomb_logarithm env T n_e species z_mean V method)
              = bop hyperbolic_formula bmax bmin)"
proof (intro conjI impI)
  assume lin: "linear_family method"
  have "ln_Lambda_value env T n_e species z_mean V method = bop linear_formula bmax bmin"
    using assms lin by (simp add: ln_Lambda_value_def bop_uop_post linear_formula_eq)
  then show "map_sum id fst (Coulomb_logarithm env T n_e species z_mean V method)
              = bop linear_formula bmax bmin"
    by (cases "bop linear_formula bmax bmin") (simp_all add: Coulomb_logarithm_def)
next
  assume hyp: "hyperbolic_family method"
  have "ln_Lambda_value env T n_e species z_mean V method = bop hyperbolic_formula bmax bmin"
    using assms hyp family_disjoint(1)[OF hyp]
    by (simp add: ln_Lambda_value_def bop_uop_post bop_uop_pre hyperbolic_formula_eq)
  then show "map_sum id fst (Coulomb_logarithm env T n_e species z_mean V method)
              = bop hyperbolic_formula bmax bmin"
    by (cases "bop hyperbolic_formula bmax bmin") (simp_all add: Coulomb_logarithm_def)
qed

theorem Coulomb_logarithm_formula_witness:
  "map_sum id fst
     (Coulomb_logarithm example_collaborators (Scalar (Fin 4)) (Scalar (Fin 1))
        (negative_particle, positive_particle) NaN (Some (Scalar (Fin 1))) ''classical'')
     = Inr (Scalar (Fin (ln 2)))
   \<and> map_sum id fst
     (Coulomb_logarithm example_collaborators (Scalar (Fin 4)) (Scalar (Fin 1))
        (negative_particle, positive_particle) NaN (Some (Scalar (Fin (3 / 2)))) ''GMS-4'')
     = Inr (Scalar (Fin (1 / 2 * ln (1 + (18 / 5)\<^sup>2))))"
  using Coulomb_logarithm_formula[OF example_classical]
    Coulomb_logarithm_formula[OF example_GMS_4]
  by (simp add: linear_family_def hyperbolic_family_def linear_formula_def
      hyperbolic_formula_def)

text \<open>
  Claim C3. With method \<open>ls_clamp_mininterp\<close> or \<open>GMS-3\<close> the value is \<open>ln (bmax / bmin)\<close>
  with every entry below 2 replaced by 2. No entry of a returned value is below 2, and when
  the impact parameters are positive numbers every entry is a number that is at least 2.
\<close>

theorem clamp_never_below_2:
  assumes "clamped_family method"
    and "impact_parameter env T n_e species z_mean V method = Inr (bmin, bmax)"
  shows "map_sum id fst (Coulomb_logarithm env T n_e species z_mean V method)
           = bop clamped_formula bmax bmin
       \<and> (\<forall>v w. Coulomb_logarithm env T n_e species z_mean V method = Inr (v, w) \<longrightarrow>
            (\<forall>x \<in> set (elems v). \<not> fl_lt x (Fin 2)) \<and>
            ((\<forall>a \<in> set (elems bmax). \<exists>y. a = Fin y \<and> 0 < y) \<and>
             (\<forall>b \<in> set (elems bmin). \<exists>y. b = Fin y \<and> 0 < y) \<longrightarrow>
             (\<forall>x \<in> set (elems v). \<exists>y. x = Fin y \<and> 2 \<le> y)))"
proof -
  have cf: "clamped_formula =
      (\<lambda>x y. if fl_lt (fl_log (fl_div x y)) (Fin 2) then Fin 2 else fl_log (fl_div x y))"
    by (simp add: fun_eq_iff clamped_formula_def linear_formula_eq[symmetric] Let_def)
  have val: "ln_Lambda_value env T n_e species z_mean V method = bop clamped_formula bmax bmin"
    using assms family_disjoint(2)[OF assms(1)]
    by (simp add: ln_Lambda_value_def clamp_at_2_uop uop_uop bop_uop_post cf)
  have eq: "map_sum id fst (Coulomb_logarithm env T n_e species z_mean V method)
           = bop clamped_formula bmax bmin"
    using val by (cases "bop clamped_formula bmax bmin") (simp_all add: Coulomb_logarithm_def)
  have nlt: "\<not> fl_lt (clamped_formula p q) (Fin 2)" for p q
    by (cases "linear_formula p q") (auto simp: clamped_formula_def Let_def)
  have pos: "\<exists>y. clamped_formula (Fin a) (Fin b) = Fin y \<and> 2 \<le> y" if "0 < a" "0 < b" for a b
    using that by (auto simp: clamped_formula_def linear_formula_def Let_def divide_le_0_iff)
  {
    fix v w assume ret: "Coulomb_logarithm env T n_e species z_mean V method = Inr (v, w)"
    then have bv: "bop clamped_formula bmax bmin = Inr v" using eq by simp
    have 1: "\<forall>x \<in> set (elems v). \<not> fl_lt x (Fin 2)"
      using elems_bop[OF bv] nlt by metis
    have 2: "\<forall>x \<in> set (elems v). \<exists>y. x = Fin y \<and> 2 \<le> y"
      if "\<forall>a \<in> set (elems bmax). \<exists>y. a = Fin y \<and> 0 < y"
         "\<forall>b \<in> set (elems bmin). \<exists>y. b = Fin y \<and> 0 < y"
    proof
      fix x assume "x \<in> set (elems v)"
      then obtain p q where "p \<in> set (elems bmax)" "q \<in> set (elems bmin)"
        "x = clamped_formula p q"
        using elems_bop[OF bv] by blast
      then show "\<exists>y. x = Fin y \<and> 2 \<le> y" using that pos by metis
    qed
    note 1 2
  }
  then show ?thesis using eq by blast
qed

theorem clamp_never_below_2_witness:
  "clamped_family ''GMS-3''
   \<and> map_sum id fst
       (Coulomb_logarithm example_collaborators (Scalar (Fin 4)) (Scalar (Fin 1))
          (negative_particle, positive_particle) NaN (Some (Scalar (Fin (3 / 2)))) ''GMS-3'')
     = Inr (Scalar (Fin 2))
   \<and> linear_formula (Fin 2) (Fin (5 / 9)) = Fin (ln (18 / 5))"
proof -
  have c: "clamped_family ''GMS-3''" by (simp add: clamped_family_def)
  show ?thesis
    using clamp_never_below_2[OF c example_GMS_3] c ln_18_5_lt_2
    by (simp add: clamped_formula_def linear_formula_def)
qed

text \<open>
  Claim C5, as the claim states it, fails: the strong-coupling warning is the \<open>elif\<close> of the
  weak-coupling test, so a linear-family call whose value has one entry below 2 and another
  entry between 2 and 4 emits the weak-coupling warning only. Here the value is
  \<open>[ln 2, ln 10]\<close>, and \<open>ln 10\<close> lies between 2 and 4.
\<close>

theorem strong_warning_counterexample:
  "Coulomb_logarithm example_collaborators (Array [Fin 4, Fin 100]) (Scalar (Fin 1))
     (negative_particle, positive_particle) NaN (Some (Scalar (Fin 1))) ''classical''
   = Inr (Array [Fin (ln 2), Fin (ln 10)],
          [Depends_on_weak_coupling (Array [Fin (ln 2), Fin (ln 10)]) ''classical''])
   \<and> 2 \<le> ln (10::real) \<and> ln (10::real) < 4"
  using ln_2_lt_2 ln_10_bounds
  by (simp add: Coulomb_logarithm_def ln_Lambda_value_def example_classical_array
      linear_family_def coupling_warnings_def)

text \<open>
  Claim C5, amended. After the value is computed at most one warning is emitted: the
  weak-coupling warning when the method is in the linear family and some entry that is a
  number is below 2; otherwise the strong-coupling warning when some entry that is a number
  is below 4; no warning when every entry is NaN or at least 4. The computed value is returned
  together with whatever was warned: the warnings never turn a computed value into a failure.
\<close>

theorem coupling_warnings_cases:
  "(linear_family method \<and> (\<exists>y. Fin y \<in> set (elems v) \<and> y < 2) \<longrightarrow>
      coupling_warnings method v = [Depends_on_weak_coupling v method])
 \<and> (\<not> (linear_family method \<and> (\<exists>y. Fin y \<in> set (elems v) \<and> y < 2)) \<and>
      (\<exists>y. Fin y \<in> set (elems v) \<and> y < 4) \<longrightarrow>
      coupling_warnings method v = [Strong_coupling_may_exist v])
 \<and> ((\<forall>x \<in> set (elems v). x = NaN \<or> (\<exists>y. x = Fin y \<and> 4 \<le> y)) \<longrightarrow>
      coupling_warnings method v = [])
 \<and> (ln_Lambda_value env T n_e species z_mean V method = Inr v \<longrightarrow>
      Coulomb_logarithm env T n_e species z_mean V method
        = Inr (v, coupling_warnings method v))"
proof -
  have any: "any_q (\<lambda>x. fl_lt x (Fin c)) v \<longleftrightarrow> (\<exists>y. Fin y \<in> set (elems v) \<and> y < c)" for c
  proof (cases v)
    case (Scalar a)
    then show ?thesis by (cases a) auto
  next
    case (Array xs)
    have "list_ex (\<lambda>x. fl_lt x (Fin c)) xs \<longleftrightarrow> (\<exists>y. Fin y \<in> set xs \<and> y < c)"
    proof
      assume "list_ex (\<lambda>x. fl_lt x (Fin c)) xs"
      then obtain x where x: "x \<in> set xs" "fl_lt x (Fin c)" by (auto simp: list_ex_iff)
      from x(2) obtain y where "x = Fin y" "y < c" by (cases x) auto
      with x(1) show "\<exists>y. Fin y \<in> set xs \<and> y < c" by blast
    next
      assume "\<exists>y. Fin y \<in> set xs \<and> y < c"
      then obtain y where "Fin y \<in> set xs" "fl_lt (Fin y) (Fin c)" by auto
      then show "list_ex (\<lambda>x. fl_lt x (Fin c)) xs" unfolding list_ex_iff by blast
    qed
    with Array show ?thesis by simp
  qed
  have none: "\<not> (\<exists>y. Fin y \<in> set (elems v) \<and> y < c)"
    if "\<forall>x \<in> set (elems v). x = NaN \<or> (\<exists>y. x = Fin y \<and> 4 \<le> y)" "c \<le> 4" for c
    using that by fastforce
  show ?thesis
    using none[of 2] none[of 4]
    by (auto simp: coupling_warnings_def any Coulomb_logarithm_def)
qed

theorem coupling_warnings_cases_witness:
  "coupling_warnings ''classical'' (Scalar (Fin 1))
     = [Depends_on_weak_coupling (Scalar (Fin 1)) ''classical'']
   \<and> coupling_warnings ''GMS-4'' (Array [Fin 1, Fin 3])
     = [Strong_coupling_may_exist (Array [Fin 1, Fin 3])]
   \<and> coupling_warnings ''classical'' (Array [NaN, Fin 5]) = []
   \<and> Coulomb_logarithm example_collaborators (Scalar (Fin 4)) (Scalar (Fin 1))
        (negative_particle, positive_particle) NaN (Some (Scalar (Fin 1))) ''classical''
     = Inr (Scalar (Fin (ln 2)),
            [Depends_on_weak_coupling (Scalar (Fin (ln 2))) ''classical''])"
proof -
  have lin: "linear_family ''classical''" "\<not> linear_family ''GMS-4''"
    by (simp_all add: linear_family_def)
  have e1: "\<exists>y. Fin y \<in> set (elems (Scalar (Fin 1))) \<and> y < (2::real)"
    by (intro exI[of _ 1]) simp
  have e2: "\<exists>y. Fin y \<in> set (elems (Array [Fin 1, Fin 3])) \<and> y < (4::real)"
    by (intro exI[of _ 1]) simp
  have e3: "\<forall>x \<in> set (elems (Array [NaN, Fin 5])). x = NaN \<or> (\<exists>y. x = Fin y \<and> 4 \<le> y)"
    by simp
  have e4: "\<exists>y. Fin y \<in> set (elems (Scalar (Fin (ln 2)))) \<and> y < (2::real)"
    using ln_2_lt_2 by (intro exI[of _ "ln 2"]) simp
  show ?thesis
    using coupling_warnings_cases[of "''classical''" "Scalar (Fin 1)"]
      coupling_warnings_cases[of "''GMS-4''" "Array [Fin 1, Fin 3]"]
      coupling_warnings_cases[of "''classical''" "Array [NaN, Fin 5]"]
      coupling_warnings_cases[of "''classical''" "Scalar (Fin (ln 2))" example_collaborators
        "Scalar (Fin 4)" "Scalar (Fin 1)" "(negative_particle, positive_particle)" NaN
        "Some (Scalar (Fin 1))"]
      example_classical_value lin e1 e2 e3 e4
    by metis
qed

section \<open>The impact parameters\<close>

text \<open>
  Claim C2. For a call whose checks pass (the velocity \<open>V'\<close> after the replacement of its NaN
  entries has no zero entry, \<open>z_mean\<close> is a number when the method needs it, the method is one
  of the seven or an alias), \<open>impact_parameter\<close> returns the per-method table, entry by entry:
  \<open>bmin\<close> is the table's function of each entry of \<open>V'\<close>, from \<open>lambda_B = hbar / (2 mu V)\<close> and
  the closest approach \<open>rho_perp = Z1 * Z2 * e^2 / (4 pi eps0 mu V^2)\<close>, a distance, in which
  \<open>Z1 * e\<close> and \<open>Z2 * e\<close> are the magnitudes of the two charges; it is repeated to the length of
  \<open>bmax\<close> when \<open>bmin\<close> is a scalar and \<open>bmax\<close> an array. \<open>bmax\<close> is the table's function of the
  entries of \<open>T\<close> and \<open>n_e\<close>, broadcast: the Debye length, or its quadratic sum with the
  ion-sphere radius of \<open>n_e / z_mean\<close>. The call fails only when \<open>T\<close> and \<open>n_e\<close> cannot be
  broadcast together. Both results are lengths as plain numbers; the conversion of units is
  the work of the external unit library.
\<close>

theorem impact_parameter_table:
  assumes "boilerPlate env T species V = Inr (ch, mu, V')"
    and "\<not> any_q fl_is_zero V'"
    and "needs_z_mean method \<longrightarrow> \<not> isnan z_mean"
    and "known_method method"
  shows "impact_parameter env T n_e species z_mean V method =
           then_e (bop (bmax_table env method z_mean) T n_e) (\<lambda>bmax.
             Inr (repeat_bmin (uop (bmin_table env species mu method) V') bmax, bmax))"
  using assms by (rule impact_parameter_closed_form)

theorem impact_parameter_table_witness:
  "impact_parameter example_collaborators (Scalar (Fin 4)) (Scalar (Fin 1))
     (negative_particle, positive_particle) NaN (Some (Scalar (Fin 1))) ''classical''
     = Inr (Scalar (Fin 1), Scalar (Fin 2))
   \<and> impact_parameter example_collaborators (Scalar (Fin 4)) (Array [Fin 1, Fin 4])
     (negative_particle, positive_particle) (Fin 1) (Some (Scalar (Fin 1))) ''GMS-5''
     = Inr (Array [Fin 1, Fin 1],
            Array [Fin (sqrt (4 + (root 3 (3 / (4 * pi)))\<^sup>2)),
                   Fin (sqrt (1 + (root 3 (3 / (16 * pi)))\<^sup>2))])"
proof -
  have nz: "\<not> any_q fl_is_zero (Scalar (Fin 1))" by simp
  have k: "known_method ''classical''" "known_method ''GMS-5''"
    by (simp_all add: known_method_cases)
  have z: "needs_z_mean ''classical'' \<longrightarrow> \<not> isnan NaN" "needs_z_mean ''GMS-5'' \<longrightarrow> \<not> isnan (Fin 1)"
    by (simp_all add: needs_z_mean_def)
  show ?thesis
    using impact_parameter_table[OF example_boilerPlate nz z(1) k(1), of "Scalar (Fin 1)"]
      impact_parameter_table[OF example_boilerPlate nz z(2) k(2), of "Array [Fin 1, Fin 4]"]
    by (simp add: example_tables)
qed


text \<open>
  Claim C6. With a method that needs \<open>z_mean\<close> and \<open>z_mean\<close> NaN, \<open>impact_parameter\<close> and
  \<open>Coulomb_logarithm\<close> always fail, and when the checks of \<open>_boilerPlate\<close> pass they fail with
  the ValueError that asks for a \<open>z_mean\<close>. With a numeric \<open>z_mean\<close> that error is not raised.
  For the other methods the result does not depend on \<open>z_mean\<close>, so leaving it unset changes
  nothing, and a call with one of the other four methods whose checks pass returns: the
  impact parameters whenever \<open>T\<close> and \<open>n_e\<close> can be broadcast, the Coulomb logarithm for scalar
  \<open>T\<close> and \<open>n_e\<close>.
\<close>

theorem z_mean_requirement:
  "(needs_z_mean method \<and> isnan z_mean \<longrightarrow>
      isl (impact_parameter env T n_e species z_mean V method) \<and>
      isl (Coulomb_logarithm env T n_e species z_mean V method))
 \<and> (needs_z_mean method \<and> isnan z_mean \<and> boilerPlate env T species V = Inr (ch, mu, V') \<longrightarrow>
      impact_parameter env T n_e species z_mean V method = Inl (ValueError [Text z_mean_message]) \<and>
      Coulomb_logarithm env T n_e species z_mean V method = Inl (ValueError [Text z_mean_message]))
 \<and> (\<not> isnan z_mean \<and> boilerPlate env T species V = Inr (ch, mu, V') \<longrightarrow>
      impact_parameter env T n_e species z_mean V method \<noteq> Inl (ValueError [Text z_mean_message]) \<and>
      Coulomb_logarithm env T n_e species z_mean V method \<noteq> Inl (ValueError [Text z_mean_message]))
 \<and> (\<not> needs_z_mean method \<longrightarrow>
      Coulomb_logarithm env T n_e species NaN V method
        = Coulomb_logarithm env T n_e species z_mean V method)
 \<and> (known_method method \<and> \<not> needs_z_mean method \<and>
      boilerPlate env T species V = Inr (ch, mu, V') \<and> \<not> any_q fl_is_zero V' \<longrightarrow>
      (\<forall>l. bop (Debye_length env) T n_e = Inr l \<longrightarrow>
         (\<exists>bmin. impact_parameter env T n_e species NaN V method = Inr (bmin, l))) \<and>
      (\<forall>t n. T = Scalar t \<and> n_e = Scalar n \<longrightarrow>
         (\<exists>v w. Coulomb_logarithm env T n_e species NaN V method = Inr (v, w))))"
proof (intro conjI impI)
  assume a: "needs_z_mean method \<and> isnan z_mean"
  have ip: "isl (impact_parameter env T n_e species z_mean V method)"
    using a by (cases "boilerPlate env T species V") (auto simp: impact_parameter_def)
  then show "isl (impact_parameter env T n_e species z_mean V method)" .
  from ip show "isl (Coulomb_logarithm env T n_e species z_mean V method)"
    by (cases "impact_parameter env T n_e species z_mean V method")
       (auto simp: Coulomb_logarithm_def ln_Lambda_value_def)
next
  assume a: "needs_z_mean method \<and> isnan z_mean \<and> boilerPlate env T species V = Inr (ch, mu, V')"
  then show ip: "impact_parameter env T n_e species z_mean V method = Inl (ValueError [Text z_mean_message])"
    by (simp add: impact_parameter_def)
  then show "Coulomb_logarithm env T n_e species z_mean V method = Inl (ValueError [Text z_mean_message])"
    by (simp add: Coulomb_logarithm_def ln_Lambda_value_def)
next
  assume a: "\<not> isnan z_mean \<and> boilerPlate env T species V = Inr (ch, mu, V')"
  then show "impact_parameter env T n_e species z_mean V method \<noteq> Inl (ValueError [Text z_mean_message])"
    using not_z_impact_parameter[of "env" T species V ch mu V' z_mean n_e "method"]
    by (simp add: not_z_def)
  from a show "Coulomb_logarithm env T n_e species z_mean V method \<noteq> Inl (ValueError [Text z_mean_message])"
    using not_z_Coulomb_logarithm[of "env" T species V ch mu V' z_mean n_e "method"]
    by (simp add: not_z_def)
next
  assume "\<not> needs_z_mean method"
  then show "Coulomb_logarithm env T n_e species NaN V method
        = Coulomb_logarithm env T n_e species z_mean V method"
    using impact_parameter_z_mean_unused[of "method" "env" T n_e species NaN V z_mean]
    by (simp add: Coulomb_logarithm_def ln_Lambda_value_def)
next
  assume a: "known_method method \<and> \<not> needs_z_mean method \<and>
      boilerPlate env T species V = Inr (ch, mu, V') \<and> \<not> any_q fl_is_zero V'"
  then have tab: "impact_parameter env T n_e species NaN V method =
           then_e (bop (bmax_table env method NaN) T n_e) (\<lambda>bmax.
             Inr (repeat_bmin (uop (bmin_table env species mu method) V') bmax, bmax))"
    by (intro impact_parameter_closed_form) auto
  have bm: "bmax_table env method NaN = Debye_length env"
    using a by (auto simp: bmax_table_def[abs_def] needs_z_mean_def Let_def)
  show "\<forall>l. bop (Debye_length env) T n_e = Inr l \<longrightarrow>
         (\<exists>bmin. impact_parameter env T n_e species NaN V method = Inr (bmin, l))"
    unfolding tab bm by auto
  show "\<forall>t n. T = Scalar t \<and> n_e = Scalar n \<longrightarrow>
         (\<exists>v w. Coulomb_logarithm env T n_e species NaN V method = Inr (v, w))"
  proof (intro allI impI)
    fix t n assume s: "T = Scalar t \<and> n_e = Scalar n"
    let ?bmin = "uop (bmin_table env species mu method) V'"
    let ?bmax = "Scalar (Debye_length env t n)"
    have ip: "impact_parameter env T n_e species NaN V method = Inr (?bmin, ?bmax)"
      unfolding tab bm using s by simp
    obtain r where r: "bop fl_div ?bmax ?bmin = Inr r" using bop_Scalar_left by blast
    obtain r' where r': "bop fl_div (uop fl_sq ?bmax) (uop fl_sq ?bmin) = Inr r'"
      using bop_Scalar_left[of fl_div "fl_sq (Debye_length env t n)"] by auto
    from a have "linear_family method \<or> clamped_family method \<or> hyperbolic_family method"
      by (simp add: known_method_def)
    then show "\<exists>v w. Coulomb_logarithm env T n_e species NaN V method = Inr (v, w)"
      using ip r r' by (auto simp: Coulomb_logarithm_def ln_Lambda_value_def)
  qed
qed

theorem z_mean_requirement_witness:
  "Coulomb_logarithm example_collaborators (Scalar (Fin 4)) (Scalar (Fin 1))
     (negative_particle, positive_particle) NaN (Some (Scalar (Fin 1))) ''GMS-6''
     = Inl (ValueError [Text z_mean_message])
   \<and> Coulomb_logarithm example_collaborators (Scalar (Fin 4)) (Scalar (Fin 1))
     (negative_particle, positive_particle) (Fin 1) (Some (Scalar (Fin 1))) ''GMS-6''
     \<noteq> Inl (ValueError [Text z_mean_message])
   \<and> Coulomb_logarithm example_collaborators (Scalar (Fin 4)) (Scalar (Fin 1))
     (negative_particle, positive_particle) NaN (Some (Scalar (Fin 1))) ''classical''
     = Coulomb_logarithm example_collaborators (Scalar (Fin 4)) (Scalar (Fin 1))
     (negative_particle, positive_particle) (Fin 1) (Some (Scalar (Fin 1))) ''classical''
   \<and> (\<exists>v w. Coulomb_logarithm example_collaborators (Scalar (Fin 4)) (Scalar (Fin 1))
     (negative_particle, positive_particle) NaN (Some (Scalar (Fin 1))) ''classical''
     = Inr (v, w))"
proof -
  have nz: "\<not> any_q fl_is_zero (Scalar (Fin 1))" by simp
  have k: "known_method ''classical''" by (simp add: known_method_cases)
  have z: "\<not> needs_z_mean ''classical''" "needs_z_mean ''GMS-6''"
    by (simp_all add: needs_z_mean_def)
  have n: "isnan NaN" "\<not> isnan (Fin 1)" by simp_all
  note r1 = z_mean_requirement[of "''GMS-6''" "NaN" example_collaborators "Scalar (Fin 4)"
        "Scalar (Fin 1)" "(negative_particle, positive_particle)" "Some (Scalar (Fin 1))"
        "(1, 1)" 1 "Scalar (Fin 1)"]
  note r2 = z_mean_requirement[of "''GMS-6''" "Fin 1" example_collaborators "Scalar (Fin 4)"
        "Scalar (Fin 1)" "(negative_particle, positive_particle)" "Some (Scalar (Fin 1))"
        "(1, 1)" 1 "Scalar (Fin 1)"]
  note r3 = z_mean_requirement[of "''classical''" "Fin 1" example_collaborators "Scalar (Fin 4)"
        "Scalar (Fin 1)" "(negative_particle, positive_particle)" "Some (Scalar (Fin 1))"
        "(1, 1)" 1 "Scalar (Fin 1)"]
  have c1: "Coulomb_logarithm example_collaborators (Scalar (Fin 4)) (Scalar (Fin 1))
     (negative_particle, positive_particle) NaN (Some (Scalar (Fin 1))) ''GMS-6''
     = Inl (ValueError [Text z_mean_message])"
    using r1 z(2) n(1) example_boilerPlate by blast
  have c2: "Coulomb_logarithm example_collaborators (Scalar (Fin 4)) (Scalar (Fin 1))
     (negative_particle, positive_particle) (Fin 1) (Some (Scalar (Fin 1))) ''GMS-6''
     \<noteq> Inl (ValueError [Text z_mean_message])"
    using r2 n(2) example_boilerPlate by blast
  have c3: "Coulomb_logarithm example_collaborators (Scalar (Fin 4)) (Scalar (Fin 1))
     (negative_particle, positive_particle) NaN (Some (Scalar (Fin 1))) ''classical''
     = Coulomb_logarithm example_collaborators (Scalar (Fin 4)) (Scalar (Fin 1))
     (negative_particle, positive_particle) (Fin 1) (Some (Scalar (Fin 1))) ''classical''"
    using r3 z(1) by blast
  have c4: "\<exists>v w. Coulomb_logarithm example_collaborators (Scalar (Fin 4)) (Scalar (Fin 1))
     (negative_particle, positive_particle) NaN (Some (Scalar (Fin 1))) ''classical''
     = Inr (v, w)"
    using r3 z(1) k nz example_boilerPlate by blast
  show ?thesis using c1 c2 c3 c4 by blast
qed

section \<open>Facts about the Thomson model\<close>

lemma norm3_scale3: "0 < s \<Longrightarrow> norm3 (scale3 s v) = s * norm3 v"
proof (cases v)
  case (fields x y z)
  assume s: "0 < s"
  have "(s * x)\<^sup>2 + (s * y)\<^sup>2 + (s * z)\<^sup>2 = s\<^sup>2 * (x\<^sup>2 + y\<^sup>2 + z\<^sup>2)"
    by (simp add: power_mult_distrib distrib_left)
  then show ?thesis using fields s by (simp add: real_sqrt_mult)
qed

lemma div3_norm3_scale3: "0 < s \<Longrightarrow> div3 (scale3 s v) (norm3 (scale3 s v)) = div3 v (norm3 v)"
proof (cases v)
  case (fields x y z)
  assume s: "0 < s"
  have n: "norm3 (s * x, s * y, s * z) = s * norm3 (x, y, z)"
    using norm3_scale3[OF s, of "(x, y, z)"] by simp
  show ?thesis unfolding fields using s by (simp add: n del: norm3.simps)
qed


lemma sum_list_zip_pos:
  assumes "length fs = length zs" "\<forall>f \<in> set fs. 0 \<le> f" "\<forall>z \<in> set zs. (0::real) < z"
  shows "0 \<le> sum_list (map (\<lambda>(f, z). f * z) (zip fs zs))
       \<and> (0 < sum_list fs \<longrightarrow> 0 < sum_list (map (\<lambda>(f, z). f * z) (zip fs zs)))"
  using assms
proof (induction fs zs rule: list_induct2)
  case Nil
  then show ?case by simp
next
  case (Cons f fs z zs)
  then have ih: "0 \<le> sum_list (map (\<lambda>(f, z). f * z) (zip fs zs))"
    "0 < sum_list fs \<longrightarrow> 0 < sum_list (map (\<lambda>(f, z). f * z) (zip fs zs))"
    by auto
  have f: "0 \<le> f" "0 < z" using Cons.prems by auto
  then have fz: "0 \<le> f * z" by simp
  show ?case
  proof (intro conjI impI)
    show "0 \<le> sum_list (map (\<lambda>(f, z). f * z) (zip (f # fs) (z # zs)))"
      using fz ih(1) by simp
    assume "0 < sum_list (f # fs)"
    then have "0 < f \<or> 0 < sum_list fs" using f(1) by (simp add: add_pos_nonneg) (smt (verit))
    then show "0 < sum_list (map (\<lambda>(f, z). f * z) (zip (f # fs) (z # zs)))"
    proof
      assume "0 < f"
      then have "0 < f * z" using f(2) by simp
      then show ?thesis using ih(1) by simp
    next
      assume "0 < sum_list fs"
      then show ?thesis using ih(2) fz by simp
    qed
  qed
qed

lemma sum_list_scaled_zip:
  "length fs = length zs \<Longrightarrow>
   sum_list (map (\<lambda>(d, z). d * z) (zip (map (\<lambda>f. f * n / c) fs) zs))
   = n / c * sum_list (map (\<lambda>(f, z). f * z) (zip fs zs))" for n c :: real
  by (induction fs zs rule: list_induct2) (simp_all add: algebra_simps)

lemma sum_list_scaled: "sum_list (map (\<lambda>f. f * n) fs) = sum_list fs * n" for n :: real
  by (induction fs) (simp_all add: algebra_simps)


lemma fst_spectral_physics:
  "fst (spectral_physics env wavelengths probe_wavelength n Te Ti efract ifract ion_species
          electron_vel ion_vel probe_vec scatter_vec)
   = scattering_parameter (plasma_frequency env n)
       (wavenumbers (speed_of_light env) (plasma_frequency env n)
          (map (\<lambda>l. 2 * pi * speed_of_light env / l) wavelengths)
          (2 * pi * speed_of_light env / probe_wavelength) probe_vec scatter_vec)
       (map (\<lambda>T. thermal_speed_of env T (Name ''e-'')) Te)"
  unfolding spectral_physics_def Let_def split_def by (simp only: fst_conv)

lemma spectral_density_numeric_alpha:
  assumes "spectral_density_numeric env wavelengths probe_wavelength n Te Ti efract ifract ions
             electron_vel ion_vel probe_vec scatter_vec = Inr (alpha, Skw)"
  shows "alpha = scattering_parameter (plasma_frequency env n)
           (scattering_wavenumbers env wavelengths probe_wavelength n probe_vec scatter_vec)
           (electron_thermal_speeds env Te efract)
       \<and> length (electron_thermal_speeds env Te efract) = length (electron_populations efract)"
proof -
  have "\<exists>Te' Ti' ef' if' ev' iv'.
          condition_Te Te (electron_populations efract) = Inr Te' \<and>
          spectral_physics env wavelengths probe_wavelength n Te' Ti' ef' if' ions
             ev' iv' (div3 probe_vec (norm3 probe_vec)) (div3 scatter_vec (norm3 scatter_vec))
          = (alpha, Skw)"
    using assms
    unfolding spectral_density_numeric_def Let_def then_e_def electron_populations_def
    by (auto split: sum.splits) blast
  then obtain Te' Ti' ef' if' ev' iv' where
    Te': "condition_Te Te (electron_populations efract) = Inr Te'" and
    ph: "spectral_physics env wavelengths probe_wavelength n Te' Ti' ef' if' ions
             ev' iv' (div3 probe_vec (norm3 probe_vec)) (div3 scatter_vec (norm3 scatter_vec))
         = (alpha, Skw)"
    by blast
  have Te'_eq: "Te' = (if length Te = 1 then replicate (length (electron_populations efract)) (hd Te)
                       else Te)"
    and len: "length Te' = length (electron_populations efract)"
    using Te' by (auto simp: condition_Te_def split: if_splits)
  from ph have "alpha = fst (spectral_physics env wavelengths probe_wavelength n Te' Ti' ef' if'
          ions ev' iv' (div3 probe_vec (norm3 probe_vec)) (div3 scatter_vec (norm3 scatter_vec)))"
    by (metis fst_conv)
  then show ?thesis
    unfolding fst_spectral_physics scattering_wavenumbers_def electron_thermal_speeds_def
    using Te'_eq len by auto
qed

lemma length_concat_map:
  "length (concat (map (\<lambda>kj. map (f kj) vs) ks)) = length ks * length vs"
  by (induction ks) simp_all

lemma mean_single_population:
  "scattering_parameter wpe k [v] = mean_over_wavelengths wpe k v"
proof -
  have "concat (map (\<lambda>kj. [sqrt 2 * wpe / (kj * v)]) k) = map (\<lambda>kj. sqrt 2 * wpe / (kj * v)) k"
    by (induction k) simp_all
  then show ?thesis by (simp add: scattering_parameter_def mean_over_wavelengths_def)
qed


lemma example_thomson_simps:
  "Particle example_thomson ''H+'' = Inr proton"
  "thermal_speed_of example_thomson T (Name s) = sqrt (2 * T)"
  "plasma_frequency example_thomson n = sqrt n"
  "speed_of_light example_thomson = 1"
  by (simp_all add: example_thomson_def)

lemma sqrt_values: "sqrt 9 = 3" "sqrt 16 = 4" "sqrt 64 = 8"
  by (rule real_sqrt_unique; simp add: power2_eq_square)+

lemma resolve_entries_success:
  "resolve_entries P xs = (ys, None) \<Longrightarrow> list_all2 (entry_resolved P) xs ys"
proof (induction P xs arbitrary: ys rule: resolve_entries.induct)
  case (1 P)
  then show ?case by simp
next
  case (2 P p xs)
  obtain zs e where r: "resolve_entries P xs = (zs, e)" by (cases "resolve_entries P xs")
  with 2 show ?case by auto
next
  case (3 P s xs)
  show ?case
  proof (cases "P s")
    case (Inl e)
    with 3 show ?thesis by simp
  next
    case (Inr p)
    obtain zs e where r: "resolve_entries P xs = (zs, e)" by (cases "resolve_entries P xs")
    with 3 Inr show ?thesis by auto
  qed
qed

lemma condition_ion_species_frame:
  "condition_ion_species env h ion_species = (h', res) \<Longrightarrow> ion_species \<noteq> ListObject b \<Longrightarrow>
   h' b = h b"
  by (cases ion_species)
     (auto simp: condition_ion_species_def split: prod.splits option.splits if_splits)

lemma condition_ion_species_list:
  assumes "condition_ion_species env h (ListObject a) = (h', Inr ions)"
  shows "list_all2 (entry_resolved (Particle env)) (h a) (h' a)"
proof -
  obtain l e where r: "resolve_entries (Particle env) (h a) = (l, e)"
    by (cases "resolve_entries (Particle env) (h a)")
  with assms have "e = None" "h' = h(a := l)"
    by (auto simp: condition_ion_species_def split: if_splits option.splits)
  with r show ?thesis using resolve_entries_success by fastforce
qed

lemma spectral_density_store:
  "spectral_density env h wavelengths probe_wavelength n Te Ti efract ifract ion_species
     electron_vel ion_vel probe_vec scatter_vec = (h', res) \<Longrightarrow>
   \<exists>c. condition_ion_species env h ion_species = (h', c) \<and> (\<forall>r. res = Inr r \<longrightarrow> (\<exists>ions. c = Inr ions))"
  by (auto simp: spectral_density_def split: prod.splits sum.splits)

lemma list_all2_changed:
  "list_all2 (entry_resolved P) xs ys \<Longrightarrow> Name s \<in> set xs \<Longrightarrow> ys \<noteq> xs"
proof (induction xs ys rule: list_all2_induct)
  case Nil
  then show ?case by simp
next
  case (Cons x xs y ys)
  then show ?case by (cases y) auto
qed


lemma example_mutation:
  "spectral_density example_thomson example_store [1] 1 1 [1] [1] None (Some [1 / 2, 1 / 2])
     (ListObject 0) None None (1, 0, 0) (0, 1, 0)
   = (example_store(0 := [Resolved proton, Resolved alpha_particle]),
      Inr (spectral_physics example_thomson [1] 1 1 [1] [1, 1] [1] [1 / 2, 1 / 2]
             [proton, alpha_particle] [(0, 0, 0)] [(0, 0, 0), (0, 0, 0)] (1, 0, 0) (0, 1, 0)))"
  by (simp add: spectral_density_def condition_ion_species_def example_store_def
      example_thomson_simps spectral_density_numeric_def condition_Te_def condition_Ti_def
      check_ion_sizes_def check_electron_sizes_def Let_def)


lemma example_two_populations:
  "spectral_density example_thomson example_store [2 * pi / 5] (2 * pi / 5) 9 [2, 8] [1]
     (Some [1 / 2, 1 / 2]) None (Single (Name ''H+'')) None None (1, 0, 0) (- 1, 0, 0)
   = (example_store,
      Inr (spectral_physics example_thomson [2 * pi / 5] (2 * pi / 5) 9 [2, 8] [1]
             [1 / 2, 1 / 2] [1] [proton] [(0, 0, 0), (0, 0, 0)] [(0, 0, 0)]
             (1, 0, 0) (- 1, 0, 0)))"
  by (simp add: spectral_density_def condition_ion_species_def
      example_thomson_simps spectral_density_numeric_def condition_Te_def condition_Ti_def
      check_ion_sizes_def check_electron_sizes_def Let_def)

lemma example_wavenumbers:
  "wavenumbers 1 3 [5] 5 (1, 0, 0) (- 1, 0, 0) = [8]"
  by (simp add: wavenumbers_def Let_def sqrt_values)

lemma example_alpha_two_populations:
  "fst (spectral_physics example_thomson [2 * pi / 5] (2 * pi / 5) 9 [2, 8] [1]
             [1 / 2, 1 / 2] [1] [proton] [(0, 0, 0), (0, 0, 0)] [(0, 0, 0)]
             (1, 0, 0) (- 1, 0, 0)) = sqrt 2 * 9 / 64"
  by (simp add: fst_spectral_physics example_thomson_simps sqrt_values example_wavenumbers
      scattering_parameter_def mean_def)


lemma example_one_population:
  "spectral_density example_thomson example_store [2 * pi / 5] (2 * pi / 5) 9 [2] [1]
     None None (Single (Name ''H+'')) None None (1, 0, 0) (- 1, 0, 0)
   = (example_store,
      Inr (fst (spectral_physics example_thomson [2 * pi / 5] (2 * pi / 5) 9 [2] [1]
             [1] [1] [proton] [(0, 0, 0)] [(0, 0, 0)] (1, 0, 0) (- 1, 0, 0)),
           snd (spectral_physics example_thomson [2 * pi / 5] (2 * pi / 5) 9 [2] [1]
             [1] [1] [proton] [(0, 0, 0)] [(0, 0, 0)] (1, 0, 0) (- 1, 0, 0))))"
  by (simp add: spectral_density_def condition_ion_species_def
      example_thomson_simps spectral_density_numeric_def condition_Te_def condition_Ti_def
      check_ion_sizes_def check_electron_sizes_def Let_def)


text \<open>
  Whenever the counts of the ion populations or of the electron populations do not agree
  (one temperature counts for any number of populations, an omitted velocity array takes the
  length of the fractions), \<open>spectral_density\<close> fails with a ValueError and returns no numbers.
\<close>

lemma count_mismatch_fails:
  assumes "condition_ion_species env h ion_species = (h', Inr ions)"
    and "\<not> ((length Ti = 1 \<or> length Ti = length ions)
            \<and> length ions = length (case ifract of None \<Rightarrow> [1] | Some i \<Rightarrow> i)
            \<and> (case ion_vel of None \<Rightarrow> True
                | Some v \<Rightarrow> length v = length (case ifract of None \<Rightarrow> [1] | Some i \<Rightarrow> i))
            \<and> (length Te = 1 \<or> length Te = length (case efract of None \<Rightarrow> [1] | Some e \<Rightarrow> e))
            \<and> (case electron_vel of None \<Rightarrow> True
                | Some v \<Rightarrow> length v = length (case efract of None \<Rightarrow> [1] | Some e \<Rightarrow> e)))"
  shows "\<exists>m. spectral_density env h wavelengths probe_wavelength n Te Ti efract ifract ion_species
               electron_vel ion_vel probe_vec scatter_vec = (h', Inl (ValueError m))"
  using assms
  by (auto simp: spectral_density_def spectral_density_numeric_def condition_Te_def
      condition_Ti_def check_ion_sizes_def check_electron_sizes_def Let_def
      split: option.splits)

section \<open>The Thomson spectral density\<close>

text \<open>
  Claim C4, as the claim states it, fails for more than one electron population: \<open>alpha\<close> has
  an entry for each wavelength and each electron population, and the returned value is the
  mean of all of them. With one wavelength and the thermal speeds 2 and 4 of two populations
  the returned value is \<open>sqrt 2 * 9 / 64\<close>, while the mean across the wavelengths is
  \<open>sqrt 2 * 3 / 16\<close> for the first thermal speed and \<open>sqrt 2 * 3 / 32\<close> for the second.
\<close>

theorem alpha_two_populations_counterexample:
  "map_sum id fst (snd (spectral_density example_thomson example_store [2 * pi / 5] (2 * pi / 5)
     9 [2, 8] [1] (Some [1 / 2, 1 / 2]) None (Single (Name ''H+'')) None None
     (1, 0, 0) (- 1, 0, 0))) = Inr (sqrt 2 * 9 / 64)
   \<and> plasma_frequency example_thomson 9 = 3
   \<and> scattering_wavenumbers example_thomson [2 * pi / 5] (2 * pi / 5) 9 (1, 0, 0) (- 1, 0, 0) = [8]
   \<and> electron_thermal_speeds example_thomson [2, 8] (Some [1 / 2, 1 / 2]) = [2, 4]
   \<and> mean_over_wavelengths 3 [8] 2 = sqrt 2 * 3 / 16
   \<and> mean_over_wavelengths 3 [8] 4 = sqrt 2 * 3 / 32
   \<and> sqrt 2 * 9 / 64 \<noteq> sqrt 2 * 3 / 16 \<and> sqrt 2 * 9 / 64 \<noteq> sqrt 2 * 3 / 32"
  by (simp add: example_two_populations example_alpha_two_populations example_thomson_simps
      sqrt_values scattering_wavenumbers_def example_wavenumbers electron_thermal_speeds_def
      mean_over_wavelengths_def mean_def)


text \<open>
  Claim C4, amended. The first returned value is the arithmetic mean of
  \<open>sqrt(2) * wpe / (k * vTe)\<close> over all pairs of a sampled wavelength and an electron
  population, with \<open>wpe\<close> the electron plasma frequency of the total density \<open>n\<close>; with a single
  electron population it is the mean across the sampled wavelengths.
\<close>

theorem alpha_mean_all_entries:
  assumes "spectral_density env h wavelengths probe_wavelength n Te Ti efract ifract ion_species
             electron_vel ion_vel probe_vec scatter_vec = (h', Inr (alpha, Skw))"
  shows "alpha =
           sum_list (concat (map (\<lambda>kj. map (\<lambda>v. sqrt 2 * plasma_frequency env n / (kj * v))
                                       (electron_thermal_speeds env Te efract))
                       (scattering_wavenumbers env wavelengths probe_wavelength n
                          probe_vec scatter_vec)))
           / real (length wavelengths * length (electron_populations efract))
       \<and> (\<forall>v. electron_thermal_speeds env Te efract = [v] \<longrightarrow>
            alpha = mean_over_wavelengths (plasma_frequency env n)
                      (scattering_wavenumbers env wavelengths probe_wavelength n
                         probe_vec scatter_vec) v)"
proof -
  obtain ions where "spectral_density_numeric env wavelengths probe_wavelength n Te Ti efract
       ifract ions electron_vel ion_vel probe_vec scatter_vec = Inr (alpha, Skw)"
    using assms by (auto simp: spectral_density_def split: prod.splits sum.splits)
  note a = spectral_density_numeric_alpha[OF this]
  have lk: "length (scattering_wavenumbers env wavelengths probe_wavelength n probe_vec scatter_vec)
        = length wavelengths"
    by (simp add: scattering_wavenumbers_def wavenumbers_def Let_def)
  have 1: "alpha =
           sum_list (concat (map (\<lambda>kj. map (\<lambda>v. sqrt 2 * plasma_frequency env n / (kj * v))
                                       (electron_thermal_speeds env Te efract))
                       (scattering_wavenumbers env wavelengths probe_wavelength n
                          probe_vec scatter_vec)))
           / real (length wavelengths * length (electron_populations efract))"
    using a lk by (simp add: scattering_parameter_def mean_def length_concat_map)
  have 2: "alpha = mean_over_wavelengths (plasma_frequency env n)
                      (scattering_wavenumbers env wavelengths probe_wavelength n
                         probe_vec scatter_vec) v"
    if "electron_thermal_speeds env Te efract = [v]" for v
    using a that by (simp add: mean_single_population)
  show ?thesis using 1 2 by blast
qed

theorem alpha_mean_all_entries_witness:
  "fst (spectral_physics example_thomson [2 * pi / 5] (2 * pi / 5) 9 [2] [1]
             [1] [1] [proton] [(0, 0, 0)] [(0, 0, 0)] (1, 0, 0) (- 1, 0, 0))
   = mean_over_wavelengths 3 [8] 2
   \<and> mean_over_wavelengths 3 [8] 2 = sqrt 2 * 3 / 16"
proof -
  have v: "electron_thermal_speeds example_thomson [2] None = [2]"
    by (simp add: electron_thermal_speeds_def electron_populations_def example_thomson_simps)
  have k: "scattering_wavenumbers example_thomson [2 * pi / 5] (2 * pi / 5) 9 (1, 0, 0) (- 1, 0, 0)
         = [8]"
    by (simp add: scattering_wavenumbers_def example_thomson_simps sqrt_values example_wavenumbers)
  have w: "plasma_frequency example_thomson 9 = 3"
    by (simp add: example_thomson_simps sqrt_values)
  have m: "mean_over_wavelengths 3 [8] 2 = sqrt 2 * 3 / 16"
    by (simp add: mean_over_wavelengths_def mean_def)
  show ?thesis
    using alpha_mean_all_entries[OF example_one_population] v k w m by simp
qed


text \<open>
  Claim C7. The call fails with a ValueError, as the claim says, but the message does not
  report the count of \<open>ifract\<close>: the f-string interpolates the array \<open>ifract\<close> itself, where the
  message of the electron check interpolates \<open>efract.size\<close>. With \<open>ifract\<close> of length 2 and one
  ion species the message carries the two fractions, then the counts 1, 1 and 2 of
  \<open>ion_species\<close>, \<open>Ti\<close> and \<open>ion_vel\<close>.
\<close>

theorem inconsistent_species_message:
  "spectral_density example_thomson example_store [1] 1 1 [1] [1] None (Some [1 / 2, 1 / 2])
     (Single (Name ''H+'')) None None (1, 0, 0) (0, 1, 0)
   = (example_store,
      Inl (ValueError [Text ''Inconsistent number of species in ifract ('', Values [1 / 2, 1 / 2],
             Text ''), ion_species ('', Count 1, Text ''), Ti ('', Count 1,
             Text ''), and/or ion_vel ('', Count 2, Text '').'']))"
  by (simp add: spectral_density_def condition_ion_species_def
      example_thomson_simps spectral_density_numeric_def condition_Te_def condition_Ti_def
      check_ion_sizes_def check_electron_sizes_def)

text \<open>
  Claim C8. For fractions that are not negative and sum to 1 and positive ion charge numbers,
  the densities \<open>ne[i] = efract[i] * n\<close> and \<open>ni[j] = ifract[j] * n / zbar\<close> with
  \<open>zbar = sum(ifract[j] * Z_j)\<close> are neutral: \<open>sum(ni[j] * Z_j) = n = sum(ne[i])\<close>.
\<close>

theorem charge_neutrality:
  assumes "length ifract = length ion_z"
    and "\<forall>f \<in> set ifract. 0 \<le> f" and "\<forall>z \<in> set ion_z. 0 < z"
    and "sum_list ifract = 1" and "sum_list efract = 1"
    and "population_densities n efract ifract ion_z = (zbar, ne, ni)"
  shows "sum_list (map (\<lambda>(d, z). d * z) (zip ni ion_z)) = n
       \<and> sum_list ne = n
       \<and> zbar = sum_list (map (\<lambda>(f, z). f * z) (zip ifract ion_z)) \<and> 0 < zbar"
proof -
  have z: "zbar = sum_list (map (\<lambda>(f, z). f * z) (zip ifract ion_z))"
    and ne: "ne = map (\<lambda>f. f * n) efract" and ni: "ni = map (\<lambda>f. f * n / zbar) ifract"
    using assms(6) by (auto simp: population_densities_def Let_def)
  have pos: "0 < zbar" using sum_list_zip_pos[OF assms(1-3)] assms(4) z by simp
  have "sum_list (map (\<lambda>(d, z). d * z) (zip ni ion_z)) = n / zbar * zbar"
    unfolding ni using sum_list_scaled_zip[OF assms(1), of n zbar] z by simp
  then have 1: "sum_list (map (\<lambda>(d, z). d * z) (zip ni ion_z)) = n" using pos by simp
  have 2: "sum_list ne = n" unfolding ne using assms(5) by (simp add: sum_list_scaled)
  show ?thesis using 1 2 z pos by simp
qed

theorem charge_neutrality_witness:
  "population_densities 6 [1 / 4, 3 / 4] [1 / 2, 1 / 2] [1, 2]
     = (3 / 2, [3 / 2, 9 / 2], [2, 2])
   \<and> sum_list (map (\<lambda>(d, z). d * z) (zip [2, 2] [1, 2])) = (6::real)
   \<and> sum_list [3 / 2, 9 / 2] = (6::real)"
proof -
  have p: "population_densities 6 [1 / 4, 3 / 4] [1 / 2, 1 / 2] [1, 2]
     = (3 / 2, [3 / 2, 9 / 2], [2, 2])"
    by (simp add: population_densities_def Let_def)
  have h: "length [1 / 2, 1 / 2 :: real] = length [1, 2 :: real]"
    "\<forall>f \<in> set [1 / 2, 1 / 2 :: real]. 0 \<le> f" "\<forall>z \<in> set [1, 2 :: real]. 0 < z"
    "sum_list [1 / 2, 1 / 2 :: real] = 1" "sum_list [1 / 4, 3 / 4 :: real] = 1"
    by simp_all
  show ?thesis using charge_neutrality[OF h p] p by simp
qed


text \<open>
  Claim C9. In exact arithmetic the claim holds: a vector divided by its norm has norm 1, and
  positive multiples of \<open>probe_vec\<close> and \<open>scatter_vec\<close> give the same unit vectors, hence the same
  store and the same failure or pair \<open>(alpha, Skw)\<close>. The two lemmas below say so for the model
  over the reals. The source computes in float64, where \<open>v / norm(v)\<close> depends on the scale of
  \<open>v\<close> in the last bit, and it passes the dot product of the two unit vectors to \<open>np.arccos\<close>
  without clipping it to \<open>[-1, 1]\<close>: for \<open>probe_vec = [1, 1, 1]\<close> and
  \<open>scatter_vec = [-1, -1, -1]\<close> the dot product is \<open>-1.0000000000000002\<close> and the result is NaN,
  for \<open>probe_vec = [3, 3, 3]\<close> it is \<open>-1.0\<close> and the result is a number. The model over the reals
  does not represent this rounding, so these lemmas do not establish the claim for the code.
\<close>

lemma unit_vector_norm3: "norm3 v \<noteq> 0 \<Longrightarrow> norm3 (div3 v (norm3 v)) = 1"
proof (cases v)
  case (fields x y z)
  assume n: "norm3 v \<noteq> 0"
  let ?q = "x\<^sup>2 + y\<^sup>2 + z\<^sup>2"
  have q0: "0 \<le> ?q" by simp
  have "?q \<noteq> 0" using n fields by auto
  with q0 have q: "0 < ?q" by linarith
  have sq: "(sqrt ?q)\<^sup>2 = ?q" using q0 by (rule real_sqrt_pow2)
  have "(x / sqrt ?q)\<^sup>2 + (y / sqrt ?q)\<^sup>2 + (z / sqrt ?q)\<^sup>2
        = x\<^sup>2 / ?q + y\<^sup>2 / ?q + z\<^sup>2 / ?q"
    unfolding power_divide sq ..
  also have "\<dots> = ?q / ?q" by (simp only: add_divide_distrib)
  also have "\<dots> = 1" using q by simp
  finally have e: "(x / sqrt ?q)\<^sup>2 + (y / sqrt ?q)\<^sup>2 + (z / sqrt ?q)\<^sup>2 = 1" .
  have "norm3 (div3 v (norm3 v))
        = sqrt ((x / sqrt ?q)\<^sup>2 + (y / sqrt ?q)\<^sup>2 + (z / sqrt ?q)\<^sup>2)"
    unfolding fields by (simp only: norm3.simps div3.simps)
  then show ?thesis unfolding e by simp
qed

lemma exact_normalization_invariance:
  assumes "0 < s" and "0 < t"
  shows "spectral_density env h wavelengths probe_wavelength n Te Ti efract ifract ion_species
           electron_vel ion_vel (scale3 s probe_vec) (scale3 t scatter_vec)
         = spectral_density env h wavelengths probe_wavelength n Te Ti efract ifract ion_species
           electron_vel ion_vel probe_vec scatter_vec"
  using assms
  by (simp add: spectral_density_def spectral_density_numeric_def div3_norm3_scale3
      split: prod.splits sum.splits)

text \<open>
  Claim C10. When \<open>ion_species\<close> is a list of the caller and the call returns, every string of
  that list has been overwritten in place by the \<open>Particle\<close> it resolves to (so a list that held
  a string has changed) and every \<open>Particle\<close> is kept; every other list of the store is as it
  was, whatever the outcome, and with a single string or \<open>Particle\<close> the whole store is as it
  was. The numeric arguments are never written (see the section on \<open>thomson.py\<close>).
\<close>

theorem ion_species_list_mutated:
  assumes "spectral_density env h wavelengths probe_wavelength n Te Ti efract ifract ion_species
             electron_vel ion_vel probe_vec scatter_vec = (h', res)"
  shows "(\<forall>b. ion_species \<noteq> ListObject b \<longrightarrow> h' b = h b)
       \<and> (\<forall>a r. ion_species = ListObject a \<and> res = Inr r \<longrightarrow>
            list_all2 (entry_resolved (Particle env)) (h a) (h' a) \<and>
            (\<forall>s. Name s \<in> set (h a) \<longrightarrow> h' a \<noteq> h a))"
proof -
  obtain c where c: "condition_ion_species env h ion_species = (h', c)"
    and r: "\<forall>r. res = Inr r \<longrightarrow> (\<exists>ions. c = Inr ions)"
    using spectral_density_store[OF assms] by auto
  have 1: "\<forall>b. ion_species \<noteq> ListObject b \<longrightarrow> h' b = h b"
    using condition_ion_species_frame[OF c] by blast
  have 2: "list_all2 (entry_resolved (Particle env)) (h a) (h' a) \<and> (\<forall>s. Name s \<in> set (h a) \<longrightarrow> h' a \<noteq> h a)"
    if A: "ion_species = ListObject a" and B: "res = Inr x" for a x
  proof -
    obtain ions where "c = Inr ions" using r B by blast
    then have l: "list_all2 (entry_resolved (Particle env)) (h a) (h' a)"
      using condition_ion_species_list c A by blast
    then show ?thesis using list_all2_changed by blast
  qed
  show ?thesis using 1 2 by blast
qed


theorem ion_species_list_mutated_witness:
  "fst (spectral_density example_thomson example_store [1] 1 1 [1] [1] None (Some [1 / 2, 1 / 2])
     (ListObject 0) None None (1, 0, 0) (0, 1, 0)) 0 = [Resolved proton, Resolved alpha_particle]
   \<and> example_store 0 = [Name ''H+'', Resolved alpha_particle]
   \<and> list_all2 (entry_resolved (Particle example_thomson)) (example_store 0)
        [Resolved proton, Resolved alpha_particle]
   \<and> fst (spectral_density example_thomson example_store [1] 1 1 [1] [1] None (Some [1 / 2, 1 / 2])
     (Single (Name ''H+'')) None None (1, 0, 0) (0, 1, 0)) 0 = example_store 0"
proof -
  have s: "spectral_density example_thomson example_store [1] 1 1 [1] [1] None
       (Some [1 / 2, 1 / 2]) (Single (Name ''H+'')) None None (1, 0, 0) (0, 1, 0)
     = (fst (spectral_density example_thomson example_store [1] 1 1 [1] [1] None
       (Some [1 / 2, 1 / 2]) (Single (Name ''H+'')) None None (1, 0, 0) (0, 1, 0)),
        snd (spectral_density example_thomson example_store [1] 1 1 [1] [1] None
       (Some [1 / 2, 1 / 2]) (Single (Name ''H+'')) None None (1, 0, 0) (0, 1, 0)))"
    by simp
  have e: "example_store 0 = [Name ''H+'', Resolved alpha_particle]"
    by (simp add: example_store_def)
  have p: "list_all2 (entry_resolved (Particle example_thomson)) (example_store 0)
        [Resolved proton, Resolved alpha_particle]"
    by (simp add: e example_thomson_simps)
  show ?thesis
    using ion_species_list_mutated[OF example_mutation] ion_species_list_mutated[OF s] e p
    by (simp add: example_mutation)
qed

end
